theory Spec2Isabelle
  imports Main
begin

section \<open>Data model of the committee node\<close>

text \<open>
  The header type of a runtime block.  The four named constants are the ones the
  per-block handler dispatches on; \<open>UnknownType v\<close> stands for any other value \<open>v\<close> of
  the header-type byte (the \<open>default\<close> branch of the handler's switch).
\<close>

datatype HeaderType = Normal | RoundFailed | EpochTransition | Suspended | UnknownType nat

record Header =
  HeaderType :: HeaderType
  Round :: nat

record Block =
  Header :: Header

record LightBlock =
  lb_Height :: int

text \<open>The registry descriptor of a runtime; \<open>KeyManager\<close> is an optional reference.\<close>

record Runtime =
  ID :: nat
  KeyManager :: "nat option"

text \<open>
  Errors are values.  \<open>ErrWrap\<close> is an error wrapping another one (\<open>fmt.Errorf\<close>
  with \<open>%w\<close>); \<open>errors_Is\<close> follows the chain as \<open>errors.Is\<close> does, while the
  scheduler compares with \<open>=\<close>.
\<close>

datatype error = ErrNoSuchRuntime | ErrCallAlreadyExists | ErrOther string | ErrWrap string error

fun errors_Is :: "error \<Rightarrow> error \<Rightarrow> bool" where
  "errors_Is (ErrWrap msg inner) target = (ErrWrap msg inner = target \<or> errors_Is inner target)"
| "errors_Is err target = (err = target)"

record BlockInfo =
  RuntimeBlock :: "Block option"
  ConsensusBlock :: "LightBlock option"
  Epoch :: nat
  ActiveDescriptor :: "Runtime option"

datatype log_level = Debug | Info | Warn | Error

datatype metric = ProcessedBlockCount | ProcessedEventCount | FailedRoundCount
  | EpochTransitionCount | EpochNumber

text \<open>
  Everything the node does to its collaborators and to its channels is recorded, in
  order, as an effect.  Hooks are identified by a number; a callback names the hook it is
  delivered to.
\<close>

datatype effect =
    Log log_level string
  | MetricInc metric
  | MetricSet metric
  | Group_EpochTransition int
  | Group_RoundTransition
  | Group_Suspend
  | Group_GetEpochSnapshot
  | Hook_HandleEpochTransitionLocked nat
  | Hook_HandleNewBlockEarlyLocked nat Block
  | Hook_HandleNewBlockLocked nat Block
  | Hook_HandleNewEventLocked nat nat
  | Hook_HandleRuntimeHostEvent nat nat
  | Hook_Initialized nat
  | TxPool_ProcessBlock BlockInfo
  | TxPool_Stop
  | Close_stopCh
  | Close_quitCh
  | Close_initCh
  | CancelCtx
  | Sub_Close string
  | Hrt_Start
  | Hrt_Stop
  | HrtNotifier_Start
  | HrtNotifier_Stop

text \<open>
  The node.  The five fields \<open>CurrentBlock\<close> .. \<open>CurrentEpoch\<close> and \<open>Height\<close> are
  the state guarded by \<open>CrossNode\<close>; a channel is the flag "closed"; \<open>stopOnce\<close> is
  the flag of the \<open>sync.Once\<close>; \<open>trace\<close> is the sequence of effects so far.
\<close>

record Node =
  hooks :: "nat list"
  CurrentBlock :: "Block option"
  CurrentBlockHeight :: int
  CurrentConsensusBlock :: "LightBlock option"
  CurrentDescriptor :: "Runtime option"
  CurrentEpoch :: nat
  Height :: int
  KeyManagerClient :: "nat option"
  stopCh :: bool
  stopOnce :: bool
  quitCh :: bool
  initCh :: bool
  trace :: "effect list"

text \<open>
  What the collaborators answer while one block is handled: the consensus backend's
  light block, runtime descriptor and epoch at the block's height (the descriptor and
  the epoch each as the pair of what is returned and the error), the committee group's epoch transition and
  the transaction pool's block update.
\<close>

record responses =
  GetLightBlock_r :: "error + LightBlock"
  GetRuntime_r :: "Runtime option \<times> error option"
  GetEpoch_r :: "nat \<times> error option"
  Group_EpochTransition_r :: "error option"
  ProcessBlock_r :: "error option"

section \<open>The per-block handler\<close>

definition emit :: "effect list \<Rightarrow> Node \<Rightarrow> Node" where
  "emit es n = n\<lparr>trace := trace n @ es\<rparr>"

definition handleEpochTransitionLocked :: "responses \<Rightarrow> int \<Rightarrow> Node \<Rightarrow> Node" where
  "handleEpochTransitionLocked rs height n0 =
    (let n = emit [Log Info ''epoch transition has occurred'',
                   MetricInc EpochTransitionCount,
                   Group_EpochTransition height] n0;
         n = (case Group_EpochTransition_r rs of
                Some err \<Rightarrow> emit [Log Error ''unable to handle epoch transition''] n
              | None \<Rightarrow> n);
         n = emit [Group_GetEpochSnapshot, MetricSet EpochNumber] n
     in emit (map Hook_HandleEpochTransitionLocked (hooks n)) n)"

definition handleSuspendLocked :: "int \<Rightarrow> Node \<Rightarrow> Node" where
  "handleSuspendLocked height n0 =
    (let n = emit [Log Warn ''runtime has been suspended'',
                   Group_Suspend,
                   Group_GetEpochSnapshot] n0
     in emit (map Hook_HandleEpochTransitionLocked (hooks n)) n)"

text \<open>
  The refresh of the active descriptor and of the epoch (the body of the \<open>if\<close> on the
  first block or on an epoch transition).  \<open>Inl\<close> is the handler returning early,
  \<open>Inr\<close> is falling through to the rest of the handler.  The descriptor lookup
  returns a pointer together with its error; with no error the pointer is assigned to
  \<open>CurrentDescriptor\<close> as it is, without a check for nil.  The epoch lookup returns a
  value together with its error, and the value is assigned to \<open>CurrentEpoch\<close> before
  the error is looked at.
\<close>

definition updateActiveDescriptor :: "responses \<Rightarrow> Node \<Rightarrow> Node + Node" where
  "updateActiveDescriptor rs n0 =
    (case (case snd (GetRuntime_r rs) of
             None \<Rightarrow> Inr (n0\<lparr>CurrentDescriptor := fst (GetRuntime_r rs)\<rparr>)
           | Some err \<Rightarrow>
               if errors_Is err ErrNoSuchRuntime then Inr n0
               else Inl (emit [Log Error ''failed to query runtime descriptor''] n0)) of
       Inl n \<Rightarrow> Inl n
     | Inr n1 \<Rightarrow>
        (let n = n1\<lparr>CurrentEpoch := fst (GetEpoch_r rs)\<rparr>
         in case snd (GetEpoch_r rs) of
              None \<Rightarrow> Inr n
            | Some err \<Rightarrow> Inl (emit [Log Error ''failed to fetch current epoch''] n)))"

text \<open>
  The switch on the header type.  \<open>Inl\<close> is the \<open>default\<close> branch returning from the
  handler, \<open>Inr\<close> is falling through to the pool update.
\<close>

definition dispatchHeaderType :: "responses \<Rightarrow> Block \<Rightarrow> int \<Rightarrow> bool \<Rightarrow> Node \<Rightarrow> Node + Node" where
  "dispatchHeaderType rs blk height firstBlockReceived n =
    (case HeaderType (Header blk) of
       Normal \<Rightarrow>
         if firstBlockReceived
         then Inr (handleEpochTransitionLocked rs height
                (emit [Log Warn ''forcing an epoch transition on first received block''] n))
         else Inr (emit [Group_RoundTransition] n)
     | RoundFailed \<Rightarrow>
         if firstBlockReceived
         then Inr (handleEpochTransitionLocked rs height
                (emit [Log Warn ''forcing an epoch transition on first received block''] n))
         else Inr (emit [Log Warn ''round has failed'', Group_RoundTransition,
                         MetricInc FailedRoundCount] n)
     | EpochTransition \<Rightarrow> Inr (handleEpochTransitionLocked rs height n)
     | Suspended \<Rightarrow> Inr (handleSuspendLocked height n)
     | UnknownType v \<Rightarrow> Inl (emit [Log Error ''invalid block type''] n))"

definition handleNewBlockLocked :: "responses \<Rightarrow> Block \<Rightarrow> int \<Rightarrow> Node \<Rightarrow> Node" where
  "handleNewBlockLocked rs blk height n0 =
    (let n = emit [MetricInc ProcessedBlockCount] n0;
         header = Header blk;
         firstBlockReceived = (CurrentBlock n = None)
     in case GetLightBlock_r rs of
          Inl err \<Rightarrow> emit [Log Error ''failed to query light block''] n
        | Inr consensusBlk \<Rightarrow>
           (let n = n\<lparr>CurrentBlock := Some blk,
                      CurrentBlockHeight := height,
                      CurrentConsensusBlock := Some consensusBlk\<rparr>
            in case (if firstBlockReceived \<or> HeaderType header = EpochTransition
                     then updateActiveDescriptor rs n else Inr n) of
                 Inl n \<Rightarrow> n
               | Inr n \<Rightarrow>
                  (let n = emit (map (\<lambda>h. Hook_HandleNewBlockEarlyLocked h blk) (hooks n)) n
                   in case dispatchHeaderType rs blk height firstBlockReceived n of
                        Inl n \<Rightarrow> n
                      | Inr n \<Rightarrow>
                         (let n = emit [TxPool_ProcessBlock
                                          \<lparr>RuntimeBlock = CurrentBlock n,
                                           ConsensusBlock = CurrentConsensusBlock n,
                                           Epoch = CurrentEpoch n,
                                           ActiveDescriptor = CurrentDescriptor n\<rparr>] n;
                              n = (case ProcessBlock_r rs of
                                     Some err \<Rightarrow> emit [Log Error
                                        ''failed to process block in transaction pool''] n
                                   | None \<Rightarrow> n)
                          in emit (map (\<lambda>h. Hook_HandleNewBlockLocked h blk) (hooks n)) n))))"

definition handleNewEventLocked :: "nat \<Rightarrow> Node \<Rightarrow> Node" where
  "handleNewEventLocked ev n0 =
    (let n = emit [MetricInc ProcessedEventCount] n0
     in emit (map (\<lambda>h. Hook_HandleNewEventLocked h ev) (hooks n)) n)"

definition handleRuntimeHostEvent :: "nat \<Rightarrow> Node \<Rightarrow> Node" where
  "handleRuntimeHostEvent ev n = emit (map (\<lambda>h. Hook_HandleRuntimeHostEvent h ev) (hooks n)) n"

section \<open>Construction, hooks and Stop\<close>

text \<open>The node as \<open>NewNode\<close> leaves it: no hooks, no block, all three channels open.\<close>

definition NewNode :: Node where
  "NewNode = \<lparr>hooks = [], CurrentBlock = None, CurrentBlockHeight = 0,
              CurrentConsensusBlock = None, CurrentDescriptor = None, CurrentEpoch = 0,
              Height = 0, KeyManagerClient = None,
              stopCh = False, stopOnce = False, quitCh = False, initCh = False,
              trace = []\<rparr>"

definition AddHooks :: "nat \<Rightarrow> Node \<Rightarrow> Node" where
  "AddHooks h n = n\<lparr>hooks := hooks n @ [h]\<rparr>"

text \<open>\<open>Stop\<close>: the body runs under \<open>stopOnce.Do\<close>, that is only while the flag is unset.\<close>

definition Stop :: "Node \<Rightarrow> Node" where
  "Stop n =
    (if stopOnce n then n
     else (let n = emit [Close_stopCh] (n\<lparr>stopCh := True\<rparr>);
               n = emit [TxPool_Stop] n
           in n\<lparr>stopOnce := True\<rparr>))"

section \<open>The worker\<close>

text \<open>
  The worker blocks in \<open>select\<close> statements and in calls that wait; which case fires is
  the environment's choice and is an input of the model.  A run is given by a finite
  schedule of such choices; when the schedule is used up the worker is still waiting
  (\<open>Waiting\<close>), otherwise it has returned (\<open>Returned\<close>) and its deferred calls have run.
\<close>

datatype worker_status = Returned | Waiting

datatype sync_select = Sync_pending | Sync_stopCh | Sync_Synced

datatype km_select = KM_pending | KM_ctxDone | KM_Initialized

datatype child_select = Child_Initialized | Child_stopCh

datatype wait_result = AllInitialized | StopRequested | StillWaiting

record startup_responses =
  select_sync :: sync_select
  ActiveDescriptor_r :: "(error + Runtime) option"
  keymanagerClient_New_r :: "nat option \<times> error option"
  select_keymanager :: km_select
  Consensus_WatchBlocks_r :: "error option"
  RootHash_WatchBlocks_r :: "error option"
  RootHash_WatchEvents_r :: "error option"
  ProvisionHostedRuntime_r :: "error option"
  hrt_WatchEvents_r :: "error option"
  hrt_Start_r :: "error option"
  hrtNotifier_Start_r :: "error option"

text \<open>
  One iteration of the main \<open>select\<close>: the stop channel, a consensus block (\<open>None\<close> is
  the nil block), an annotated runtime block (block and height, with the outcomes of the
  waits on the hooks and the collaborators' answers while it is handled), a roothash
  event, a hosted runtime event.
\<close>

datatype loop_select =
    Sel_stopCh
  | Sel_consensusBlocks "int option"
  | Sel_blocks Block int "child_select list" responses
  | Sel_events nat
  | Sel_hrtEventCh nat

text \<open>Deferred calls are kept as a stack, the head deferred last, and run from the head.\<close>

fun run_deferred :: "effect \<Rightarrow> Node \<Rightarrow> Node" where
  "run_deferred Close_quitCh n = emit [Close_quitCh] (n\<lparr>quitCh := True\<rparr>)"
| "run_deferred e n = emit [e] n"

definition worker_return :: "effect list \<Rightarrow> Node \<Rightarrow> worker_status \<times> Node" where
  "worker_return defers n = (Returned, fold run_deferred defers n)"

text \<open>The wait for the key manager, taken when the descriptor names one.\<close>

definition waitKeyManager ::
  "startup_responses \<Rightarrow> Runtime \<Rightarrow> effect list \<Rightarrow> Node \<Rightarrow> (worker_status \<times> Node) + Node" where
  "waitKeyManager su rt defers n0 =
    (if KeyManager rt \<noteq> None then
       (let n = emit [Log Info
                  ''runtime indicates a key manager is required, waiting for it to be ready''] n0;
            n = n\<lparr>KeyManagerClient := fst (keymanagerClient_New_r su)\<rparr>
        in case snd (keymanagerClient_New_r su) of
             Some err \<Rightarrow>
               Inl (worker_return defers
                     (emit [Log Error ''failed to create key manager client''] n))
           | None \<Rightarrow>
              (case select_keymanager su of
                 KM_pending \<Rightarrow> Inl (Waiting, n)
               | KM_ctxDone \<Rightarrow>
                   Inl (worker_return defers
                         (emit [Log Error ''failed to wait for key manager''] n))
               | KM_Initialized \<Rightarrow>
                   Inr (emit [Log Info ''runtime has a key manager available''] n)))
     else Inr n0)"

text \<open>
  The subscriptions and the hosted runtime.  Each failure logs and returns; each success
  defers the matching release.  \<open>Inr\<close> carries the deferred calls into the main loop.
\<close>

definition worker_subscribe ::
  "startup_responses \<Rightarrow> effect list \<Rightarrow> Node \<Rightarrow> (worker_status \<times> Node) + (effect list \<times> Node)" where
  "worker_subscribe su defers0 n =
    (case Consensus_WatchBlocks_r su of
       Some err \<Rightarrow> Inl (worker_return defers0
                      (emit [Log Error ''failed to subscribe to consensus blocks''] n))
     | None \<Rightarrow>
    (let defers1 = Sub_Close ''consensusBlocksSub'' # defers0 in
     case RootHash_WatchBlocks_r su of
       Some err \<Rightarrow> Inl (worker_return defers1
                      (emit [Log Error ''failed to subscribe to roothash blocks''] n))
     | None \<Rightarrow>
    (let defers2 = Sub_Close ''blocksSub'' # defers1 in
     case RootHash_WatchEvents_r su of
       Some err \<Rightarrow> Inl (worker_return defers2
                      (emit [Log Error ''failed to subscribe to roothash events''] n))
     | None \<Rightarrow>
    (let defers3 = Sub_Close ''eventsSub'' # defers2 in
     case ProvisionHostedRuntime_r su of
       Some err \<Rightarrow> Inl (worker_return defers3
                      (emit [Log Error ''failed to provision hosted runtime''] n))
     | None \<Rightarrow>
    (case hrt_WatchEvents_r su of
       Some err \<Rightarrow> Inl (worker_return defers3
                      (emit [Log Error ''failed to subscribe to hosted runtime events''] n))
     | None \<Rightarrow>
    (let defers4 = Sub_Close ''hrtSub'' # defers3;
         n = emit [Hrt_Start] n in
     case hrt_Start_r su of
       Some err \<Rightarrow> Inl (worker_return defers4
                      (emit [Log Error ''failed to start hosted runtime''] n))
     | None \<Rightarrow>
    (let defers5 = Hrt_Stop # defers4;
         n = emit [HrtNotifier_Start] n in
     case hrtNotifier_Start_r su of
       Some err \<Rightarrow> Inl (worker_return defers5
                      (emit [Log Error ''failed to start runtime notifier''] n))
     | None \<Rightarrow> Inr (HrtNotifier_Stop # defers5, n))))))))"

definition worker_startup ::
  "startup_responses \<Rightarrow> Node \<Rightarrow> (worker_status \<times> Node) + (effect list \<times> Node)" where
  "worker_startup su n0 =
    (let n = emit [Log Info ''starting committee node''] n0;
         defers = [CancelCtx, Close_quitCh];
         n = emit [Log Info ''delaying worker start until after initial synchronization''] n
     in case select_sync su of
          Sync_pending \<Rightarrow> Inl (Waiting, n)
        | Sync_stopCh \<Rightarrow> Inl (worker_return defers n)
        | Sync_Synced \<Rightarrow>
           (let n = emit [Log Info ''consensus has finished initial synchronization''] n
            in case ActiveDescriptor_r su of
                 None \<Rightarrow> Inl (Waiting, n)
               | Some (Inl err) \<Rightarrow>
                   Inl (worker_return defers
                         (emit [Log Error ''failed to wait for registry descriptor''] n))
               | Some (Inr rt) \<Rightarrow>
                  (let n = emit [Log Info ''runtime is registered with the registry''] n;
                       n = n\<lparr>CurrentDescriptor := Some rt\<rparr>
                   in case waitKeyManager su rt defers n of
                        Inl r \<Rightarrow> Inl r
                      | Inr n \<Rightarrow> worker_subscribe su defers n)))"

text \<open>The wait for the child workers: one \<open>select\<close> per hook, in registration order.\<close>

fun waitChildWorkers :: "nat list \<Rightarrow> child_select list \<Rightarrow> Node \<Rightarrow> wait_result \<times> Node" where
  "waitChildWorkers [] sels n = (AllInitialized, n)"
| "waitChildWorkers (h # hs) [] n = (StillWaiting, n)"
| "waitChildWorkers (h # hs) (Child_Initialized # sels) n =
     waitChildWorkers hs sels (emit [Hook_Initialized h] n)"
| "waitChildWorkers (h # hs) (Child_stopCh # sels) n =
     (StopRequested,
      emit [Log Info ''termination requested while waiting for child worker initialization''] n)"

fun worker_loop :: "effect list \<Rightarrow> bool \<Rightarrow> loop_select list \<Rightarrow> Node \<Rightarrow> worker_status \<times> Node" where
  "worker_loop defers initialized [] n = (Waiting, n)"
| "worker_loop defers initialized (Sel_stopCh # evs) n =
     worker_return defers (emit [Log Info ''termination requested''] n)"
| "worker_loop defers initialized (Sel_consensusBlocks None # evs) n = worker_return defers n"
| "worker_loop defers initialized (Sel_consensusBlocks (Some h) # evs) n =
     worker_loop defers initialized evs (n\<lparr>Height := h\<rparr>)"
| "worker_loop defers initialized (Sel_blocks blk height sels rs # evs) n =
     (if \<not> initialized then
        (let n1 = emit [Log Debug ''common worker is initialized''] n;
             n2 = emit [Close_initCh] (n1\<lparr>initCh := True\<rparr>);
             n3 = emit [Log Debug ''waiting for child worker initialization''] n2;
             w = waitChildWorkers (hooks n3) sels n3
         in (case fst w of
               StopRequested \<Rightarrow> worker_return defers (snd w)
             | StillWaiting \<Rightarrow> (Waiting, snd w)
             | AllInitialized \<Rightarrow>
                 worker_loop defers True evs
                   (handleNewBlockLocked rs blk height
                      (emit [Log Debug ''all child workers are initialized''] (snd w)))))
      else worker_loop defers initialized evs (handleNewBlockLocked rs blk height n))"
| "worker_loop defers initialized (Sel_events ev # evs) n =
     worker_loop defers initialized evs (handleNewEventLocked ev n)"
| "worker_loop defers initialized (Sel_hrtEventCh ev # evs) n =
     worker_loop defers initialized evs (handleRuntimeHostEvent ev n)"

definition worker :: "startup_responses \<Rightarrow> loop_select list \<Rightarrow> Node \<Rightarrow> worker_status \<times> Node" where
  "worker su evs n0 =
    (case worker_startup su n0 of
       Inl r \<Rightarrow> r
     | Inr (defers, n) \<Rightarrow> worker_loop defers False evs n)"

section \<open>The scheduler facade\<close>

text \<open>
  The scheduler holds a transaction pool behind the interface \<open>TxPool\<close>; the pool's
  \<open>Add\<close> is therefore a parameter: it takes the transaction and the pool and gives
  the error (if any) and the pool afterwards.
\<close>

record 'p scheduler =
  txPool :: 'p
  maxTxPoolSize :: nat
  logger :: "(log_level \<times> string) list"

definition QueueTx ::
  "('tx \<Rightarrow> 'p \<Rightarrow> error option \<times> 'p) \<Rightarrow> 'tx \<Rightarrow> 'p scheduler \<Rightarrow> error option \<times> 'p scheduler" where
  "QueueTx Add tx s0 =
    (let (err, pool) = Add tx (txPool s0);
         s = s0\<lparr>txPool := pool\<rparr>
     in case err of
          None \<Rightarrow> (None, s)
        | Some e \<Rightarrow>
            if e = ErrCallAlreadyExists
            then (None, s\<lparr>logger := logger s @ [(Warn, ''ignoring duplicate call'')]\<rparr>)
            else (Some e, s))"

definition UnscheduledSize :: "('p \<Rightarrow> nat) \<Rightarrow> 'p scheduler \<Rightarrow> nat" where
  "UnscheduledSize Size s = Size (txPool s)"

text \<open>
  Modelled from the spec: the transaction pool behind the facade (the priority queue
  named by \<open>New\<close>) is not among the sources.  Following section 4.2 of the
  specification, \<open>Add\<close> fails with the duplicate condition when a transaction with the
  same identifier is queued, fails with a capacity condition when the pool is full or
  the transaction exceeds a configured weight limit, and otherwise queues the
  transaction by priority, after the queued transactions of the same priority.
\<close>

record CheckedTransaction =
  tx_hash :: nat
  tx_priority :: nat
  tx_weights :: "(nat \<times> nat) list"

record PoolConfig =
  MaxPoolSize :: nat
  WeightLimits :: "(nat \<times> nat) list"

record Pool =
  pool_cfg :: PoolConfig
  pool_queue :: "CheckedTransaction list"

definition exceeds_weight_limits :: "PoolConfig \<Rightarrow> CheckedTransaction \<Rightarrow> bool" where
  "exceeds_weight_limits cfg tx =
    list_ex (\<lambda>(dim, w). case map_of (WeightLimits cfg) dim of
                          None \<Rightarrow> False
                        | Some limit \<Rightarrow> limit < w) (tx_weights tx)"

fun insert_by_priority :: "CheckedTransaction \<Rightarrow> CheckedTransaction list \<Rightarrow> CheckedTransaction list" where
  "insert_by_priority tx [] = [tx]"
| "insert_by_priority tx (q # qs) =
     (if tx_priority q < tx_priority tx then tx # q # qs
      else q # insert_by_priority tx qs)"

definition pool_Add :: "CheckedTransaction \<Rightarrow> Pool \<Rightarrow> error option \<times> Pool" where
  "pool_Add tx p =
    (if tx_hash tx \<in> set (map tx_hash (pool_queue p)) then (Some ErrCallAlreadyExists, p)
     else if MaxPoolSize (pool_cfg p) \<le> length (pool_queue p)
             \<or> exceeds_weight_limits (pool_cfg p) tx
     then (Some (ErrOther ''pool is full''), p)
     else (None, p\<lparr>pool_queue := insert_by_priority tx (pool_queue p)\<rparr>))"

definition pool_Size :: "Pool \<Rightarrow> nat" where
  "pool_Size p = length (pool_queue p)"

section \<open>Observing a run\<close>

text \<open>The state guarded by the lock that the claims speak of, as one tuple.\<close>

definition protected :: "Node \<Rightarrow> Block option \<times> int \<times> LightBlock option \<times> Runtime option \<times> nat" where
  "protected n = (CurrentBlock n, CurrentBlockHeight n, CurrentConsensusBlock n,
                  CurrentDescriptor n, CurrentEpoch n)"

text \<open>The effects of a step from \<open>n\<close> to \<open>n'\<close>: what the step appended to the trace.\<close>

definition effects_since :: "Node \<Rightarrow> Node \<Rightarrow> effect list" where
  "effects_since n n' = drop (length (trace n)) (trace n')"

text \<open>
  The transitions of the committee group (epoch transition, round transition,
  suspend), and the callbacks delivered to hooks.
\<close>

fun is_transition :: "effect \<Rightarrow> bool" where
  "is_transition (Group_EpochTransition h) = True"
| "is_transition Group_RoundTransition = True"
| "is_transition Group_Suspend = True"
| "is_transition e = False"

fun is_hook_callback :: "effect \<Rightarrow> bool" where
  "is_hook_callback (Hook_HandleEpochTransitionLocked h) = True"
| "is_hook_callback (Hook_HandleNewBlockEarlyLocked h b) = True"
| "is_hook_callback (Hook_HandleNewBlockLocked h b) = True"
| "is_hook_callback (Hook_HandleNewEventLocked h ev) = True"
| "is_hook_callback (Hook_HandleRuntimeHostEvent h ev) = True"
| "is_hook_callback e = False"

fun is_pool_update :: "effect \<Rightarrow> bool" where
  "is_pool_update (TxPool_ProcessBlock info) = True"
| "is_pool_update e = False"

fun is_block_callback :: "effect \<Rightarrow> bool" where
  "is_block_callback (Hook_HandleNewBlockEarlyLocked h b) = True"
| "is_block_callback (Hook_HandleNewBlockLocked h b) = True"
| "is_block_callback e = False"

text \<open>The kinds of effect that handling a block, an event or a host event can have.\<close>

fun is_handler_effect :: "effect \<Rightarrow> bool" where
  "is_handler_effect (Log l msg) = True"
| "is_handler_effect (MetricInc c) = True"
| "is_handler_effect (MetricSet c) = True"
| "is_handler_effect (Group_EpochTransition h) = True"
| "is_handler_effect Group_RoundTransition = True"
| "is_handler_effect Group_Suspend = True"
| "is_handler_effect Group_GetEpochSnapshot = True"
| "is_handler_effect (Hook_HandleEpochTransitionLocked h) = True"
| "is_handler_effect (Hook_HandleNewBlockEarlyLocked h b) = True"
| "is_handler_effect (Hook_HandleNewBlockLocked h b) = True"
| "is_handler_effect (Hook_HandleNewEventLocked h ev) = True"
| "is_handler_effect (Hook_HandleRuntimeHostEvent h ev) = True"
| "is_handler_effect (TxPool_ProcessBlock info) = True"
| "is_handler_effect e = False"

text \<open>
  The descriptor and epoch refresh goes through (does not abort the handler) when the
  descriptor lookup succeeds or reports "no such runtime", and the epoch lookup succeeds.
\<close>

definition refresh_succeeds :: "responses \<Rightarrow> bool" where
  "refresh_succeeds rs =
    ((case snd (GetRuntime_r rs) of None \<Rightarrow> True | Some err \<Rightarrow> errors_Is err ErrNoSuchRuntime)
     \<and> snd (GetEpoch_r rs) = None)"

text \<open>
  The handler reaches the switch on the header type when the light block was fetched
  and the refresh, where one is due, went through.
\<close>

definition reaches_dispatch :: "responses \<Rightarrow> Block \<Rightarrow> Node \<Rightarrow> bool" where
  "reaches_dispatch rs blk n =
    (\<not> isl (GetLightBlock_r rs)
     \<and> (CurrentBlock n = None \<or> HeaderType (Header blk) = EpochTransition
          \<longrightarrow> refresh_succeeds rs))"

text \<open>
  The transition that the specification's dispatch on the header type prescribes
  (step 5 of the per-block handling), for comparison with the handler's switch.
\<close>

fun spec_dispatch :: "bool \<Rightarrow> HeaderType \<Rightarrow> int \<Rightarrow> effect list" where
  "spec_dispatch first Normal height =
     (if first then [Group_EpochTransition height] else [Group_RoundTransition])"
| "spec_dispatch first RoundFailed height =
     (if first then [Group_EpochTransition height] else [Group_RoundTransition])"
| "spec_dispatch first EpochTransition height = [Group_EpochTransition height]"
| "spec_dispatch first Suspended height = [Group_Suspend]"
| "spec_dispatch first (UnknownType v) height = []"

fun is_Sel_blocks :: "loop_select \<Rightarrow> bool" where
  "is_Sel_blocks (Sel_blocks blk height sels rs) = True"
| "is_Sel_blocks e = False"

text \<open>
  The registry keeps to its contract when a descriptor lookup that reports no error
  returns a descriptor (and not nil); a schedule keeps to it when every runtime block in
  it is handled with such an answer.
\<close>

definition descriptor_returned :: "responses \<Rightarrow> bool" where
  "descriptor_returned rs = (snd (GetRuntime_r rs) = None \<longrightarrow> fst (GetRuntime_r rs) \<noteq> None)"

fun responses_satisfy :: "(responses \<Rightarrow> bool) \<Rightarrow> loop_select \<Rightarrow> bool" where
  "responses_satisfy R (Sel_blocks blk height sels rs) = R rs"
| "responses_satisfy R e = True"

section \<open>Example inputs\<close>

definition block_of :: "HeaderType \<Rightarrow> nat \<Rightarrow> Block" where
  "block_of t r = \<lparr>Header = \<lparr>HeaderType = t, Round = r\<rparr>\<rparr>"

definition ok_responses :: "int \<Rightarrow> nat \<Rightarrow> responses" where
  "ok_responses h e =
     \<lparr>GetLightBlock_r = Inr \<lparr>lb_Height = h\<rparr>,
      GetRuntime_r = (Some \<lparr>ID = 1, KeyManager = None\<rparr>, None),
      GetEpoch_r = (e, None),
      Group_EpochTransition_r = None,
      ProcessBlock_r = None\<rparr>"

definition ok_startup :: startup_responses where
  "ok_startup =
     \<lparr>select_sync = Sync_Synced,
      ActiveDescriptor_r = Some (Inr \<lparr>ID = 1, KeyManager = None\<rparr>),
      keymanagerClient_New_r = (Some 0, None),
      select_keymanager = KM_Initialized,
      Consensus_WatchBlocks_r = None,
      RootHash_WatchBlocks_r = None,
      RootHash_WatchEvents_r = None,
      ProvisionHostedRuntime_r = None,
      hrt_WatchEvents_r = None,
      hrt_Start_r = None,
      hrtNotifier_Start_r = None\<rparr>"

text \<open>
  The run of the scenario: a first Normal block, a Normal block, an EpochTransition
  block and a Suspended block, at heights 7 to 10, every lookup succeeding.
\<close>

definition scenario_run :: "Node \<Rightarrow> Node" where
  "scenario_run n =
     handleNewBlockLocked (ok_responses 10 3) (block_of Suspended 4) 10
       (handleNewBlockLocked (ok_responses 9 3) (block_of EpochTransition 3) 9
         (handleNewBlockLocked (ok_responses 8 2) (block_of Normal 2) 8
           (handleNewBlockLocked (ok_responses 7 2) (block_of Normal 1) 7 n)))"

text \<open>
  A node that has one hook and its descriptor from the startup but no block yet, and one
  that has already applied a first block (at height 7, in epoch 2).
\<close>

definition started_node :: Node where
  "started_node = (AddHooks 0 NewNode)\<lparr>CurrentDescriptor := Some \<lparr>ID = 1, KeyManager = None\<rparr>\<rparr>"

definition running_node :: Node where
  "running_node =
     (AddHooks 0 NewNode)\<lparr>CurrentBlock := Some (block_of Normal 1), CurrentBlockHeight := 7,
        CurrentConsensusBlock := Some \<lparr>lb_Height = 7\<rparr>,
        CurrentDescriptor := Some \<lparr>ID = 1, KeyManager = None\<rparr>, CurrentEpoch := 2\<rparr>"

section \<open>Basic facts about effects\<close>

lemma emit_fields [simp]:
  "hooks (emit es n) = hooks n"
  "CurrentBlock (emit es n) = CurrentBlock n"
  "CurrentBlockHeight (emit es n) = CurrentBlockHeight n"
  "CurrentConsensusBlock (emit es n) = CurrentConsensusBlock n"
  "CurrentDescriptor (emit es n) = CurrentDescriptor n"
  "CurrentEpoch (emit es n) = CurrentEpoch n"
  "Height (emit es n) = Height n"
  "stopCh (emit es n) = stopCh n"
  "stopOnce (emit es n) = stopOnce n"
  "quitCh (emit es n) = quitCh n"
  "initCh (emit es n) = initCh n"
  "KeyManagerClient (emit es n) = KeyManagerClient n"
  "trace (emit es n) = trace n @ es"
  by (simp_all add: emit_def)

section \<open>The handler, path by path\<close>

lemma effects_since_app: "trace n' = trace n @ es \<Longrightarrow> effects_since n n' = es"
  by (simp add: effects_since_def)

lemma emit_emit: "emit es (emit es' n) = emit (es' @ es) n"
  by (simp add: emit_def)

lemma emit_Nil: "emit [] n = n"
  by (simp add: emit_def)

lemma handleEpochTransitionLocked_eq:
  "handleEpochTransitionLocked rs height n =
     emit ([Log Info ''epoch transition has occurred'', MetricInc EpochTransitionCount,
            Group_EpochTransition height]
           @ (case Group_EpochTransition_r rs of
                Some err \<Rightarrow> [Log Error ''unable to handle epoch transition''] | None \<Rightarrow> [])
           @ [Group_GetEpochSnapshot, MetricSet EpochNumber]
           @ map Hook_HandleEpochTransitionLocked (hooks n)) n"
  by (simp add: handleEpochTransitionLocked_def Let_def emit_emit split: option.splits)

lemma handleSuspendLocked_eq:
  "handleSuspendLocked height n =
     emit ([Log Warn ''runtime has been suspended'', Group_Suspend, Group_GetEpochSnapshot]
           @ map Hook_HandleEpochTransitionLocked (hooks n)) n"
  by (simp add: handleSuspendLocked_def Let_def emit_emit)

lemma dispatch_fields:
  "dispatchHeaderType rs blk height first n = Inr n1 \<or> dispatchHeaderType rs blk height first n = Inl n1 \<Longrightarrow>
     CurrentDescriptor n1 = CurrentDescriptor n \<and> CurrentEpoch n1 = CurrentEpoch n
   \<and> CurrentBlock n1 = CurrentBlock n \<and> CurrentBlockHeight n1 = CurrentBlockHeight n
   \<and> CurrentConsensusBlock n1 = CurrentConsensusBlock n \<and> hooks n1 = hooks n"
  by (auto simp add: dispatchHeaderType_def handleEpochTransitionLocked_eq handleSuspendLocked_eq
       split: HeaderType.splits if_splits)

lemma filter_map_none: "(\<And>x. \<not> P (f x)) \<Longrightarrow> filter P (map f xs) = []"
  by (induction xs) auto

lemma filter_map_all: "(\<And>x. P (f x)) \<Longrightarrow> filter P (map f xs) = map f xs"
  by (induction xs) auto

lemma dispatch_shape:
  "\<exists>D. (dispatchHeaderType rs blk height first n =
          (case HeaderType (Header blk) of UnknownType v \<Rightarrow> Inl (emit D n) | _ \<Rightarrow> Inr (emit D n)))
     \<and> filter is_transition D = spec_dispatch first (HeaderType (Header blk)) height
     \<and> list_all is_handler_effect D
     \<and> filter is_pool_update D = []
     \<and> filter is_block_callback D = []
     \<and> filter is_hook_callback D =
          (if filter is_transition D = [Group_RoundTransition] \<or> filter is_transition D = [] then []
           else map Hook_HandleEpochTransitionLocked (hooks n))"
  apply (cases "HeaderType (Header blk)"; cases first;
         simp only: dispatchHeaderType_def HeaderType.case if_True if_False
                    handleEpochTransitionLocked_eq handleSuspendLocked_eq emit_emit emit_fields)
  apply (rule exI, rule conjI, rule refl, (auto simp add: filter_map_none filter_map_all list_all_iff split: option.splits)[1])+
  done

lemma updateActiveDescriptor_ok:
  "refresh_succeeds rs \<Longrightarrow>
   updateActiveDescriptor rs m =
     Inr (m\<lparr>CurrentDescriptor := (case snd (GetRuntime_r rs) of None \<Rightarrow> fst (GetRuntime_r rs) | Some e \<Rightarrow> CurrentDescriptor m),
            CurrentEpoch := fst (GetEpoch_r rs)\<rparr>)"
  by (auto simp add: updateActiveDescriptor_def refresh_succeeds_def split: option.splits)

lemma handle_after_fetch:
  assumes "GetLightBlock_r rs = Inr lb"
  shows "handleNewBlockLocked rs blk height n =
    (case (if CurrentBlock n = None \<or> HeaderType (Header blk) = EpochTransition
           then updateActiveDescriptor rs
                  ((emit [MetricInc ProcessedBlockCount] n)
                     \<lparr>CurrentBlock := Some blk, CurrentBlockHeight := height,
                      CurrentConsensusBlock := Some lb\<rparr>)
           else Inr ((emit [MetricInc ProcessedBlockCount] n)
                     \<lparr>CurrentBlock := Some blk, CurrentBlockHeight := height,
                      CurrentConsensusBlock := Some lb\<rparr>)) of
       Inl m \<Rightarrow> m
     | Inr m \<Rightarrow>
        (case dispatchHeaderType rs blk height (CurrentBlock n = None)
                (emit (map (\<lambda>h. Hook_HandleNewBlockEarlyLocked h blk) (hooks m)) m) of
           Inl m' \<Rightarrow> m'
         | Inr m' \<Rightarrow>
             emit ([TxPool_ProcessBlock \<lparr>RuntimeBlock = CurrentBlock m',
                      ConsensusBlock = CurrentConsensusBlock m',
                      Epoch = CurrentEpoch m', ActiveDescriptor = CurrentDescriptor m'\<rparr>]
                   @ (case ProcessBlock_r rs of
                        Some err \<Rightarrow> [Log Error ''failed to process block in transaction pool'']
                      | None \<Rightarrow> [])
                   @ map (\<lambda>h. Hook_HandleNewBlockLocked h blk) (hooks m')) m'))"
  using assms
  by (simp add: handleNewBlockLocked_def Let_def emit_emit split: sum.splits option.splits)

lemma handle_continue:
  assumes lb: "GetLightBlock_r rs = Inr lb"
      and ok: "CurrentBlock n = None \<or> HeaderType (Header blk) = EpochTransition \<longrightarrow> refresh_succeeds rs"
  shows "\<exists>D L m.
      m = (if CurrentBlock n = None \<or> HeaderType (Header blk) = EpochTransition
           then n\<lparr>CurrentBlock := Some blk, CurrentBlockHeight := height,
                  CurrentConsensusBlock := Some lb,
                  CurrentDescriptor := (case snd (GetRuntime_r rs) of None \<Rightarrow> fst (GetRuntime_r rs)
                                        | Some e \<Rightarrow> CurrentDescriptor n),
                  CurrentEpoch := fst (GetEpoch_r rs)\<rparr>
           else n\<lparr>CurrentBlock := Some blk, CurrentBlockHeight := height,
                  CurrentConsensusBlock := Some lb\<rparr>)
    \<and> handleNewBlockLocked rs blk height n =
        emit ([MetricInc ProcessedBlockCount]
              @ map (\<lambda>h. Hook_HandleNewBlockEarlyLocked h blk) (hooks n)
              @ D
              @ (case HeaderType (Header blk) of
                   UnknownType v \<Rightarrow> []
                 | _ \<Rightarrow> [TxPool_ProcessBlock \<lparr>RuntimeBlock = Some blk, ConsensusBlock = Some lb,
                            Epoch = CurrentEpoch m, ActiveDescriptor = CurrentDescriptor m\<rparr>]
                        @ L @ map (\<lambda>h. Hook_HandleNewBlockLocked h blk) (hooks n))) m
    \<and> filter is_transition D = spec_dispatch (CurrentBlock n = None) (HeaderType (Header blk)) height
    \<and> list_all is_handler_effect D
    \<and> filter is_pool_update D = []
    \<and> filter is_block_callback D = []
    \<and> filter is_hook_callback D =
          (if filter is_transition D = [Group_RoundTransition] \<or> filter is_transition D = [] then []
           else map Hook_HandleEpochTransitionLocked (hooks n))
    \<and> L = (case ProcessBlock_r rs of
             Some err \<Rightarrow> [Log Error ''failed to process block in transaction pool'']
           | None \<Rightarrow> [])"
proof -
  define n0 where "n0 = (emit [MetricInc ProcessedBlockCount] n)
                     \<lparr>CurrentBlock := Some blk, CurrentBlockHeight := height,
                      CurrentConsensusBlock := Some lb\<rparr>"
  define m0 where "m0 = (if CurrentBlock n = None \<or> HeaderType (Header blk) = EpochTransition
           then n0\<lparr>CurrentDescriptor := (case snd (GetRuntime_r rs) of None \<Rightarrow> fst (GetRuntime_r rs)
                                        | Some e \<Rightarrow> CurrentDescriptor n0),
                  CurrentEpoch := fst (GetEpoch_r rs)\<rparr>
           else n0)"
  define m1 where "m1 = emit (map (\<lambda>h. Hook_HandleNewBlockEarlyLocked h blk) (hooks m0)) m0"
  have upd: "(if CurrentBlock n = None \<or> HeaderType (Header blk) = EpochTransition
              then updateActiveDescriptor rs n0 else Inr n0) = Inr m0"
    using ok by (simp add: m0_def updateActiveDescriptor_ok)
  obtain D where D: "dispatchHeaderType rs blk height (CurrentBlock n = None) m1 =
          (case HeaderType (Header blk) of UnknownType v \<Rightarrow> Inl (emit D m1) | _ \<Rightarrow> Inr (emit D m1))"
     and D1: "filter is_transition D = spec_dispatch (CurrentBlock n = None) (HeaderType (Header blk)) height"
     and D0: "list_all is_handler_effect D"
     and D2: "filter is_pool_update D = []"
     and D3: "filter is_block_callback D = []"
     and D4: "filter is_hook_callback D =
          (if filter is_transition D = [Group_RoundTransition] \<or> filter is_transition D = [] then []
           else map Hook_HandleEpochTransitionLocked (hooks m1))"
    using dispatch_shape [of rs blk height "CurrentBlock n = None" m1] by blast
  have hooks_m1: "hooks m1 = hooks n" "hooks m0 = hooks n"
    by (simp_all add: m1_def m0_def n0_def)
  have step: "handleNewBlockLocked rs blk height n =
     (case dispatchHeaderType rs blk height (CurrentBlock n = None) m1 of
           Inl m' \<Rightarrow> m'
         | Inr m' \<Rightarrow>
             emit ([TxPool_ProcessBlock \<lparr>RuntimeBlock = CurrentBlock m',
                      ConsensusBlock = CurrentConsensusBlock m',
                      Epoch = CurrentEpoch m', ActiveDescriptor = CurrentDescriptor m'\<rparr>]
                   @ (case ProcessBlock_r rs of
                        Some err \<Rightarrow> [Log Error ''failed to process block in transaction pool'']
                      | None \<Rightarrow> [])
                   @ map (\<lambda>h. Hook_HandleNewBlockLocked h blk) (hooks m')) m')"
    unfolding handle_after_fetch [OF lb] n0_def [symmetric] upd m1_def by simp
  define m2 where "m2 = (if CurrentBlock n = None \<or> HeaderType (Header blk) = EpochTransition
           then n\<lparr>CurrentBlock := Some blk, CurrentBlockHeight := height,
                  CurrentConsensusBlock := Some lb,
                  CurrentDescriptor := (case snd (GetRuntime_r rs) of None \<Rightarrow> fst (GetRuntime_r rs)
                                        | Some e \<Rightarrow> CurrentDescriptor n),
                  CurrentEpoch := fst (GetEpoch_r rs)\<rparr>
           else n\<lparr>CurrentBlock := Some blk, CurrentBlockHeight := height,
                  CurrentConsensusBlock := Some lb\<rparr>)"
  have m0_emit: "m0 = emit [MetricInc ProcessedBlockCount] m2"
    by (simp add: m0_def n0_def m2_def emit_def cong: option.case_cong)
  have m2_fields: "CurrentEpoch m0 = CurrentEpoch m2" "CurrentDescriptor m0 = CurrentDescriptor m2"
    by (simp_all add: m0_emit)
  have fields: "CurrentBlock m0 = Some blk" "CurrentConsensusBlock m0 = Some lb"
    by (simp_all add: m0_def n0_def)
  show ?thesis
  proof (intro exI conjI)
    show "handleNewBlockLocked rs blk height n =
        emit ([MetricInc ProcessedBlockCount]
              @ map (\<lambda>h. Hook_HandleNewBlockEarlyLocked h blk) (hooks n)
              @ D
              @ (case HeaderType (Header blk) of
                   UnknownType v \<Rightarrow> []
                 | _ \<Rightarrow> [TxPool_ProcessBlock \<lparr>RuntimeBlock = Some blk, ConsensusBlock = Some lb,
                            Epoch = CurrentEpoch m2, ActiveDescriptor = CurrentDescriptor m2\<rparr>]
                        @ (case ProcessBlock_r rs of
                             Some err \<Rightarrow> [Log Error ''failed to process block in transaction pool'']
                           | None \<Rightarrow> [])
                        @ map (\<lambda>h. Hook_HandleNewBlockLocked h blk) (hooks n))) m2"
      unfolding step D
      by (cases "HeaderType (Header blk)")
         (simp_all add: m1_def hooks_m1 emit_emit fields m2_fields, simp_all add: m0_emit emit_emit)
  qed (simp_all add: D0 D1 D2 D3 D4 hooks_m1 m2_def)
qed


lemma handle_refresh_abort:
  assumes lb: "GetLightBlock_r rs = Inr lb"
      and need: "CurrentBlock n = None \<or> HeaderType (Header blk) = EpochTransition"
      and fail: "\<not> refresh_succeeds rs"
  shows "handleNewBlockLocked rs blk height n =
     (case snd (GetRuntime_r rs) of
        Some e \<Rightarrow>
          if errors_Is e ErrNoSuchRuntime
          then emit [MetricInc ProcessedBlockCount, Log Error ''failed to fetch current epoch'']
                 (n\<lparr>CurrentBlock := Some blk, CurrentBlockHeight := height,
                    CurrentConsensusBlock := Some lb, CurrentEpoch := fst (GetEpoch_r rs)\<rparr>)
          else emit [MetricInc ProcessedBlockCount, Log Error ''failed to query runtime descriptor'']
                 (n\<lparr>CurrentBlock := Some blk, CurrentBlockHeight := height,
                    CurrentConsensusBlock := Some lb\<rparr>)
      | None \<Rightarrow>
          emit [MetricInc ProcessedBlockCount, Log Error ''failed to fetch current epoch'']
            (n\<lparr>CurrentBlock := Some blk, CurrentBlockHeight := height,
               CurrentConsensusBlock := Some lb, CurrentDescriptor := fst (GetRuntime_r rs),
               CurrentEpoch := fst (GetEpoch_r rs)\<rparr>))"
  using need fail unfolding handle_after_fetch [OF lb]
  by (auto simp add: updateActiveDescriptor_def refresh_succeeds_def emit_def Let_def
           split: sum.splits option.splits)

lemma handle_fetch_failed:
  "GetLightBlock_r rs = Inl e \<Longrightarrow>
   handleNewBlockLocked rs blk height n =
     emit [MetricInc ProcessedBlockCount, Log Error ''failed to query light block''] n"
  by (simp add: handleNewBlockLocked_def Let_def emit_emit)

lemma handle_paths [case_names fetch_failed refresh_failed dispatched]:
  obtains e where "GetLightBlock_r rs = Inl e" "\<not> reaches_dispatch rs blk n"
  | lb where "GetLightBlock_r rs = Inr lb"
       "CurrentBlock n = None \<or> HeaderType (Header blk) = EpochTransition"
       "\<not> refresh_succeeds rs" "\<not> reaches_dispatch rs blk n"
  | lb where "GetLightBlock_r rs = Inr lb" "reaches_dispatch rs blk n"
       "CurrentBlock n = None \<or> HeaderType (Header blk) = EpochTransition \<longrightarrow> refresh_succeeds rs"
  by (cases "GetLightBlock_r rs") (auto simp add: reaches_dispatch_def)

lemma list_all_handler_map [simp]:
  "list_all is_handler_effect (map (\<lambda>h. Hook_HandleNewBlockEarlyLocked h blk) hs)"
  "list_all is_handler_effect (map (\<lambda>h. Hook_HandleNewBlockLocked h blk) hs)"
  "list_all is_handler_effect (map (\<lambda>h. Hook_HandleNewEventLocked h ev) hs)"
  "list_all is_handler_effect (map (\<lambda>h. Hook_HandleRuntimeHostEvent h ev) hs)"
  by (simp_all add: list_all_iff)

lemma handle_trace:
  "\<exists>es. trace (handleNewBlockLocked rs blk height n) = trace n @ es \<and> list_all is_handler_effect es"
proof (cases rule: handle_paths [of rs blk n])
  case (fetch_failed e)
  then show ?thesis by (simp add: handle_fetch_failed)
next
  case (refresh_failed lb)
  then show ?thesis
    by (simp add: handle_refresh_abort split: option.splits)
next
  case (dispatched lb)
  from handle_continue [OF dispatched(1) dispatched(3), of height]
  obtain D L m where
    eq: "handleNewBlockLocked rs blk height n =
        emit ([MetricInc ProcessedBlockCount]
              @ map (\<lambda>h. Hook_HandleNewBlockEarlyLocked h blk) (hooks n)
              @ D
              @ (case HeaderType (Header blk) of
                   UnknownType v \<Rightarrow> []
                 | _ \<Rightarrow> [TxPool_ProcessBlock \<lparr>RuntimeBlock = Some blk, ConsensusBlock = Some lb,
                            Epoch = CurrentEpoch m, ActiveDescriptor = CurrentDescriptor m\<rparr>]
                        @ L @ map (\<lambda>h. Hook_HandleNewBlockLocked h blk) (hooks n))) m"
    and m: "trace m = trace n"
    and D: "list_all is_handler_effect D"
    and L: "L = (case ProcessBlock_r rs of
             Some err \<Rightarrow> [Log Error ''failed to process block in transaction pool'']
           | None \<Rightarrow> [])"
    by auto
  have "list_all is_handler_effect L" by (simp add: L split: option.splits)
  with D show ?thesis
    by (cases "HeaderType (Header blk)") (simp_all add: eq m)
qed

lemma handle_dispatchedE:
  assumes lb: "GetLightBlock_r rs = Inr lb"
      and ok: "CurrentBlock n = None \<or> HeaderType (Header blk) = EpochTransition \<longrightarrow> refresh_succeeds rs"
  obtains D m where
    "handleNewBlockLocked rs blk height n =
        emit ([MetricInc ProcessedBlockCount]
              @ map (\<lambda>h. Hook_HandleNewBlockEarlyLocked h blk) (hooks n)
              @ D
              @ (case HeaderType (Header blk) of
                   UnknownType v \<Rightarrow> []
                 | _ \<Rightarrow> [TxPool_ProcessBlock \<lparr>RuntimeBlock = Some blk, ConsensusBlock = Some lb,
                            Epoch = CurrentEpoch m, ActiveDescriptor = CurrentDescriptor m\<rparr>]
                        @ (case ProcessBlock_r rs of
                             Some err \<Rightarrow> [Log Error ''failed to process block in transaction pool'']
                           | None \<Rightarrow> [])
                        @ map (\<lambda>h. Hook_HandleNewBlockLocked h blk) (hooks n))) m"
    "trace m = trace n" "hooks m = hooks n" "Height m = Height n"
    "stopCh m = stopCh n" "stopOnce m = stopOnce n" "quitCh m = quitCh n" "initCh m = initCh n"
    "KeyManagerClient m = KeyManagerClient n"
    "CurrentBlock m = Some blk" "CurrentBlockHeight m = height" "CurrentConsensusBlock m = Some lb"
    "CurrentDescriptor m =
       (if CurrentBlock n = None \<or> HeaderType (Header blk) = EpochTransition
        then (case snd (GetRuntime_r rs) of None \<Rightarrow> fst (GetRuntime_r rs) | Some e \<Rightarrow> CurrentDescriptor n)
        else CurrentDescriptor n)"
    "CurrentEpoch m =
       (if CurrentBlock n = None \<or> HeaderType (Header blk) = EpochTransition
        then fst (GetEpoch_r rs) else CurrentEpoch n)"
    "filter is_transition D = spec_dispatch (CurrentBlock n = None) (HeaderType (Header blk)) height"
    "list_all is_handler_effect D"
    "filter is_pool_update D = []"
    "filter is_block_callback D = []"
    "filter is_hook_callback D =
          (if filter is_transition D = [Group_RoundTransition] \<or> filter is_transition D = [] then []
           else map Hook_HandleEpochTransitionLocked (hooks n))"
proof -
  from handle_continue [OF lb ok, of height]
  obtain D L m where
    m: "m = (if CurrentBlock n = None \<or> HeaderType (Header blk) = EpochTransition
           then n\<lparr>CurrentBlock := Some blk, CurrentBlockHeight := height,
                  CurrentConsensusBlock := Some lb,
                  CurrentDescriptor := (case snd (GetRuntime_r rs) of None \<Rightarrow> fst (GetRuntime_r rs)
                                        | Some e \<Rightarrow> CurrentDescriptor n),
                  CurrentEpoch := fst (GetEpoch_r rs)\<rparr>
           else n\<lparr>CurrentBlock := Some blk, CurrentBlockHeight := height,
                  CurrentConsensusBlock := Some lb\<rparr>)"
    and eq: "handleNewBlockLocked rs blk height n =
        emit ([MetricInc ProcessedBlockCount]
              @ map (\<lambda>h. Hook_HandleNewBlockEarlyLocked h blk) (hooks n)
              @ D
              @ (case HeaderType (Header blk) of
                   UnknownType v \<Rightarrow> []
                 | _ \<Rightarrow> [TxPool_ProcessBlock \<lparr>RuntimeBlock = Some blk, ConsensusBlock = Some lb,
                            Epoch = CurrentEpoch m, ActiveDescriptor = CurrentDescriptor m\<rparr>]
                        @ L @ map (\<lambda>h. Hook_HandleNewBlockLocked h blk) (hooks n))) m"
    and D: "filter is_transition D = spec_dispatch (CurrentBlock n = None) (HeaderType (Header blk)) height"
      "list_all is_handler_effect D"
      "filter is_pool_update D = []"
      "filter is_block_callback D = []"
      "filter is_hook_callback D =
          (if filter is_transition D = [Group_RoundTransition] \<or> filter is_transition D = [] then []
           else map Hook_HandleEpochTransitionLocked (hooks n))"
    and L: "L = (case ProcessBlock_r rs of
             Some err \<Rightarrow> [Log Error ''failed to process block in transaction pool'']
           | None \<Rightarrow> [])"
    by blast
  show thesis
    by (rule that [of D m]) (simp_all add: eq [unfolded L] D, simp_all add: m)
qed

lemma handle_transitions:
  "filter is_transition (effects_since n (handleNewBlockLocked rs blk height n)) =
     (if reaches_dispatch rs blk n
      then spec_dispatch (CurrentBlock n = None) (HeaderType (Header blk)) height else [])"
proof (cases rule: handle_paths [of rs blk n])
  case (fetch_failed e)
  then show ?thesis by (simp add: handle_fetch_failed effects_since_def)
next
  case (refresh_failed lb)
  then show ?thesis
    by (simp add: handle_refresh_abort effects_since_def split: option.splits)
next
  case (dispatched lb)
  from dispatched(1,3) obtain D m where
    "handleNewBlockLocked rs blk height n =
        emit ([MetricInc ProcessedBlockCount]
              @ map (\<lambda>h. Hook_HandleNewBlockEarlyLocked h blk) (hooks n)
              @ D
              @ (case HeaderType (Header blk) of
                   UnknownType v \<Rightarrow> []
                 | _ \<Rightarrow> [TxPool_ProcessBlock \<lparr>RuntimeBlock = Some blk, ConsensusBlock = Some lb,
                            Epoch = CurrentEpoch m, ActiveDescriptor = CurrentDescriptor m\<rparr>]
                        @ (case ProcessBlock_r rs of
                             Some err \<Rightarrow> [Log Error ''failed to process block in transaction pool'']
                           | None \<Rightarrow> [])
                        @ map (\<lambda>h. Hook_HandleNewBlockLocked h blk) (hooks n))) m"
    "trace m = trace n"
    "filter is_transition D = spec_dispatch (CurrentBlock n = None) (HeaderType (Header blk)) height"
    by (rule handle_dispatchedE [of rs lb n blk height])
  with dispatched(2) show ?thesis
    by (cases "HeaderType (Header blk)")
       (simp_all add: effects_since_def filter_map_none split: option.splits)
qed

lemma handle_hook_callbacks:
  "filter is_hook_callback (effects_since n (handleNewBlockLocked rs blk height n)) =
     (if reaches_dispatch rs blk n
      then map (\<lambda>h. Hook_HandleNewBlockEarlyLocked h blk) (hooks n)
           @ (if spec_dispatch (CurrentBlock n = None) (HeaderType (Header blk)) height
                   = [Group_RoundTransition]
                 \<or> spec_dispatch (CurrentBlock n = None) (HeaderType (Header blk)) height = []
              then [] else map Hook_HandleEpochTransitionLocked (hooks n))
           @ (case HeaderType (Header blk) of
                UnknownType v \<Rightarrow> []
              | _ \<Rightarrow> map (\<lambda>h. Hook_HandleNewBlockLocked h blk) (hooks n))
      else [])"
proof (cases rule: handle_paths [of rs blk n])
  case (fetch_failed e)
  then show ?thesis by (simp add: handle_fetch_failed effects_since_def)
next
  case (refresh_failed lb)
  then show ?thesis
    by (simp add: handle_refresh_abort effects_since_def split: option.splits)
next
  case (dispatched lb)
  from dispatched(1,3) obtain D m where
    "handleNewBlockLocked rs blk height n =
        emit ([MetricInc ProcessedBlockCount]
              @ map (\<lambda>h. Hook_HandleNewBlockEarlyLocked h blk) (hooks n)
              @ D
              @ (case HeaderType (Header blk) of
                   UnknownType v \<Rightarrow> []
                 | _ \<Rightarrow> [TxPool_ProcessBlock \<lparr>RuntimeBlock = Some blk, ConsensusBlock = Some lb,
                            Epoch = CurrentEpoch m, ActiveDescriptor = CurrentDescriptor m\<rparr>]
                        @ (case ProcessBlock_r rs of
                             Some err \<Rightarrow> [Log Error ''failed to process block in transaction pool'']
                           | None \<Rightarrow> [])
                        @ map (\<lambda>h. Hook_HandleNewBlockLocked h blk) (hooks n))) m"
    "trace m = trace n"
    "filter is_transition D = spec_dispatch (CurrentBlock n = None) (HeaderType (Header blk)) height"
    "filter is_hook_callback D =
          (if filter is_transition D = [Group_RoundTransition] \<or> filter is_transition D = [] then []
           else map Hook_HandleEpochTransitionLocked (hooks n))"
    by (rule handle_dispatchedE [of rs lb n blk height])
  with dispatched(2) show ?thesis
    by (cases "HeaderType (Header blk)")
       (simp_all add: effects_since_def filter_map_none filter_map_all split: option.splits)
qed

lemma handle_other_fields:
  "hooks (handleNewBlockLocked rs blk height n) = hooks n
 \<and> Height (handleNewBlockLocked rs blk height n) = Height n
 \<and> stopCh (handleNewBlockLocked rs blk height n) = stopCh n
 \<and> stopOnce (handleNewBlockLocked rs blk height n) = stopOnce n
 \<and> quitCh (handleNewBlockLocked rs blk height n) = quitCh n
 \<and> initCh (handleNewBlockLocked rs blk height n) = initCh n
 \<and> KeyManagerClient (handleNewBlockLocked rs blk height n) = KeyManagerClient n"
proof (cases rule: handle_paths [of rs blk n])
  case (fetch_failed e)
  then show ?thesis by (simp add: handle_fetch_failed)
next
  case (refresh_failed lb)
  then show ?thesis
    by (simp add: handle_refresh_abort split: option.splits)
next
  case (dispatched lb)
  from dispatched(1,3) show ?thesis
    by (rule handle_dispatchedE [of rs lb n blk height]) simp
qed

lemma handle_hooks [simp]: "hooks (handleNewBlockLocked rs blk height n) = hooks n"
  by (simp add: handle_other_fields)

lemma handle_descriptor:
  "CurrentDescriptor (handleNewBlockLocked rs blk height n) = CurrentDescriptor n
   \<or> (snd (GetRuntime_r rs) = None
      \<and> (CurrentBlock n = None \<or> HeaderType (Header blk) = EpochTransition)
      \<and> CurrentDescriptor (handleNewBlockLocked rs blk height n) = fst (GetRuntime_r rs))"
proof (cases rule: handle_paths [of rs blk n])
  case (fetch_failed e)
  then show ?thesis by (simp add: handle_fetch_failed)
next
  case (refresh_failed lb)
  then show ?thesis
    by (simp add: handle_refresh_abort split: option.splits)
next
  case (dispatched lb)
  from dispatched(1,3) show ?thesis
    by (rule handle_dispatchedE [of rs lb n blk height]) (simp split: option.splits)
qed

lemma handle_committed:
  assumes "GetLightBlock_r rs = Inr lb"
  shows "CurrentBlock (handleNewBlockLocked rs blk height n) = Some blk
       \<and> CurrentBlockHeight (handleNewBlockLocked rs blk height n) = height
       \<and> CurrentConsensusBlock (handleNewBlockLocked rs blk height n) = Some lb"
proof (cases rule: handle_paths [of rs blk n])
  case (fetch_failed e)
  with assms show ?thesis by simp
next
  case (refresh_failed lb')
  with assms show ?thesis
    by (simp add: handle_refresh_abort split: option.splits)
next
  case (dispatched lb')
  from dispatched(1,3) obtain D m where
    "handleNewBlockLocked rs blk height n =
        emit ([MetricInc ProcessedBlockCount]
              @ map (\<lambda>h. Hook_HandleNewBlockEarlyLocked h blk) (hooks n)
              @ D
              @ (case HeaderType (Header blk) of
                   UnknownType v \<Rightarrow> []
                 | _ \<Rightarrow> [TxPool_ProcessBlock \<lparr>RuntimeBlock = Some blk, ConsensusBlock = Some lb',
                            Epoch = CurrentEpoch m, ActiveDescriptor = CurrentDescriptor m\<rparr>]
                        @ (case ProcessBlock_r rs of
                             Some err \<Rightarrow> [Log Error ''failed to process block in transaction pool'']
                           | None \<Rightarrow> [])
                        @ map (\<lambda>h. Hook_HandleNewBlockLocked h blk) (hooks n))) m"
    "CurrentBlock m = Some blk" "CurrentBlockHeight m = height" "CurrentConsensusBlock m = Some lb'"
    by (rule handle_dispatchedE [of rs lb' n blk height])
  with dispatched(1) assms show ?thesis by simp
qed

lemma handle_refreshed:
  assumes "reaches_dispatch rs blk n"
  shows "CurrentDescriptor (handleNewBlockLocked rs blk height n) =
       (if CurrentBlock n = None \<or> HeaderType (Header blk) = EpochTransition
        then (case snd (GetRuntime_r rs) of None \<Rightarrow> fst (GetRuntime_r rs) | Some e \<Rightarrow> CurrentDescriptor n)
        else CurrentDescriptor n)
    \<and> CurrentEpoch (handleNewBlockLocked rs blk height n) =
       (if CurrentBlock n = None \<or> HeaderType (Header blk) = EpochTransition
        then fst (GetEpoch_r rs) else CurrentEpoch n)"
proof (cases rule: handle_paths [of rs blk n])
  case (fetch_failed e)
  with assms show ?thesis by simp
next
  case (refresh_failed lb')
  with assms show ?thesis by simp
next
  case (dispatched lb')
  from dispatched(1,3) obtain D m where
    "handleNewBlockLocked rs blk height n =
        emit ([MetricInc ProcessedBlockCount]
              @ map (\<lambda>h. Hook_HandleNewBlockEarlyLocked h blk) (hooks n)
              @ D
              @ (case HeaderType (Header blk) of
                   UnknownType v \<Rightarrow> []
                 | _ \<Rightarrow> [TxPool_ProcessBlock \<lparr>RuntimeBlock = Some blk, ConsensusBlock = Some lb',
                            Epoch = CurrentEpoch m, ActiveDescriptor = CurrentDescriptor m\<rparr>]
                        @ (case ProcessBlock_r rs of
                             Some err \<Rightarrow> [Log Error ''failed to process block in transaction pool'']
                           | None \<Rightarrow> [])
                        @ map (\<lambda>h. Hook_HandleNewBlockLocked h blk) (hooks n))) m"
    "CurrentDescriptor m =
       (if CurrentBlock n = None \<or> HeaderType (Header blk) = EpochTransition
        then (case snd (GetRuntime_r rs) of None \<Rightarrow> fst (GetRuntime_r rs) | Some e \<Rightarrow> CurrentDescriptor n)
        else CurrentDescriptor n)"
    "CurrentEpoch m =
       (if CurrentBlock n = None \<or> HeaderType (Header blk) = EpochTransition
        then fst (GetEpoch_r rs) else CurrentEpoch n)"
    by (rule handle_dispatchedE [of rs lb' n blk height])
  then show ?thesis by simp
qed

lemma handle_pool_updates:
  "filter is_pool_update (effects_since n (handleNewBlockLocked rs blk height n)) =
     (if reaches_dispatch rs blk n \<and> (\<forall>v. HeaderType (Header blk) \<noteq> UnknownType v)
      then [TxPool_ProcessBlock
              \<lparr>RuntimeBlock = CurrentBlock (handleNewBlockLocked rs blk height n),
               ConsensusBlock = CurrentConsensusBlock (handleNewBlockLocked rs blk height n),
               Epoch = CurrentEpoch (handleNewBlockLocked rs blk height n),
               ActiveDescriptor = CurrentDescriptor (handleNewBlockLocked rs blk height n)\<rparr>]
      else [])"
proof (cases rule: handle_paths [of rs blk n])
  case (fetch_failed e)
  then show ?thesis by (simp add: handle_fetch_failed effects_since_def)
next
  case (refresh_failed lb)
  then show ?thesis
    by (simp add: handle_refresh_abort effects_since_def split: option.splits)
next
  case (dispatched lb)
  from dispatched(1,3) obtain D m where
    "handleNewBlockLocked rs blk height n =
        emit ([MetricInc ProcessedBlockCount]
              @ map (\<lambda>h. Hook_HandleNewBlockEarlyLocked h blk) (hooks n)
              @ D
              @ (case HeaderType (Header blk) of
                   UnknownType v \<Rightarrow> []
                 | _ \<Rightarrow> [TxPool_ProcessBlock \<lparr>RuntimeBlock = Some blk, ConsensusBlock = Some lb,
                            Epoch = CurrentEpoch m, ActiveDescriptor = CurrentDescriptor m\<rparr>]
                        @ (case ProcessBlock_r rs of
                             Some err \<Rightarrow> [Log Error ''failed to process block in transaction pool'']
                           | None \<Rightarrow> [])
                        @ map (\<lambda>h. Hook_HandleNewBlockLocked h blk) (hooks n))) m"
    "trace m = trace n" "CurrentBlock m = Some blk" "CurrentConsensusBlock m = Some lb"
    "filter is_pool_update D = []"
    by (rule handle_dispatchedE [of rs lb n blk height])
  with dispatched(2) show ?thesis
    by (cases "HeaderType (Header blk)")
       (simp_all add: effects_since_def filter_map_none split: option.splits)
qed

lemma effects_since_trans:
  assumes "\<exists>es. trace n1 = trace n @ es" and "\<exists>es. trace n2 = trace n1 @ es"
  shows "effects_since n n2 = effects_since n n1 @ effects_since n1 n2"
  using assms by (auto simp add: effects_since_def)

lemma handle_extends: "\<exists>es. trace (handleNewBlockLocked rs blk height n) = trace n @ es"
  using handle_trace [of rs blk height n] by blast

lemma handle_no_refresh:
  assumes "CurrentBlock n \<noteq> None" and "HeaderType (Header blk) \<noteq> EpochTransition"
  shows "CurrentDescriptor (handleNewBlockLocked rs blk height n) = CurrentDescriptor n
       \<and> CurrentEpoch (handleNewBlockLocked rs blk height n) = CurrentEpoch n"
proof (cases rule: handle_paths [of rs blk n])
  case (fetch_failed e)
  then show ?thesis by (simp add: handle_fetch_failed)
next
  case (refresh_failed lb)
  with assms show ?thesis by simp
next
  case (dispatched lb)
  with assms handle_refreshed [of rs blk n height] show ?thesis by auto
qed

lemma in_filter_transition:
  "Group_RoundTransition \<in> set es \<Longrightarrow> Group_RoundTransition \<in> set (filter is_transition es)"
  by simp

lemmas example_defs = AddHooks_def NewNode_def ok_responses_def block_of_def running_node_def
  reaches_dispatch_def refresh_succeeds_def

lemmas eval_defs = handleNewBlockLocked_def updateActiveDescriptor_def dispatchHeaderType_def
  handleSuspendLocked_def handleEpochTransitionLocked_def emit_def effects_since_def Let_def
  AddHooks_def NewNode_def ok_responses_def block_of_def running_node_def

lemma handle_not_first:
  "\<not> isl (GetLightBlock_r rs) \<Longrightarrow> CurrentBlock (handleNewBlockLocked rs blk height n) = Some blk"
  using handle_committed [of rs _ blk height n] by (cases "GetLightBlock_r rs") simp_all

lemma reaches_dispatch_later:
  "\<not> isl (GetLightBlock_r rs) \<Longrightarrow> CurrentBlock n \<noteq> None \<Longrightarrow>
   HeaderType (Header blk) \<noteq> EpochTransition \<or> refresh_succeeds rs \<Longrightarrow> reaches_dispatch rs blk n"
  by (auto simp add: reaches_dispatch_def)

lemma scenario_effects:
  assumes first: "CurrentBlock n = None"
      and t1: "HeaderType (Header b1) = Normal" and t2: "HeaderType (Header b2) = Normal"
      and t3: "HeaderType (Header b3) = EpochTransition" and t4: "HeaderType (Header b4) = Suspended"
      and r1: "reaches_dispatch rs1 b1 n"
      and r2: "\<not> isl (GetLightBlock_r rs2)"
      and r3: "\<not> isl (GetLightBlock_r rs3)" "refresh_succeeds rs3"
      and r4: "\<not> isl (GetLightBlock_r rs4)"
  shows "filter is_transition (effects_since n
           (handleNewBlockLocked rs4 b4 h4 (handleNewBlockLocked rs3 b3 h3
             (handleNewBlockLocked rs2 b2 h2 (handleNewBlockLocked rs1 b1 h1 n)))))
         = [Group_EpochTransition h1, Group_RoundTransition, Group_EpochTransition h3, Group_Suspend]
       \<and> filter is_hook_callback (effects_since n
           (handleNewBlockLocked rs4 b4 h4 (handleNewBlockLocked rs3 b3 h3
             (handleNewBlockLocked rs2 b2 h2 (handleNewBlockLocked rs1 b1 h1 n)))))
         = map (\<lambda>h. Hook_HandleNewBlockEarlyLocked h b1) (hooks n)
           @ map Hook_HandleEpochTransitionLocked (hooks n)
           @ map (\<lambda>h. Hook_HandleNewBlockLocked h b1) (hooks n)
           @ map (\<lambda>h. Hook_HandleNewBlockEarlyLocked h b2) (hooks n)
           @ map (\<lambda>h. Hook_HandleNewBlockLocked h b2) (hooks n)
           @ map (\<lambda>h. Hook_HandleNewBlockEarlyLocked h b3) (hooks n)
           @ map Hook_HandleEpochTransitionLocked (hooks n)
           @ map (\<lambda>h. Hook_HandleNewBlockLocked h b3) (hooks n)
           @ map (\<lambda>h. Hook_HandleNewBlockEarlyLocked h b4) (hooks n)
           @ map Hook_HandleEpochTransitionLocked (hooks n)
           @ map (\<lambda>h. Hook_HandleNewBlockLocked h b4) (hooks n)"
proof -
  define n1 where "n1 = handleNewBlockLocked rs1 b1 h1 n"
  define n2 where "n2 = handleNewBlockLocked rs2 b2 h2 n1"
  define n3 where "n3 = handleNewBlockLocked rs3 b3 h3 n2"
  define n4 where "n4 = handleNewBlockLocked rs4 b4 h4 n3"
  have l1: "\<not> isl (GetLightBlock_r rs1)" using r1 by (simp add: reaches_dispatch_def)
  have c1: "CurrentBlock n1 = Some b1" unfolding n1_def by (rule handle_not_first [OF l1])
  have c2: "CurrentBlock n2 = Some b2" unfolding n2_def by (rule handle_not_first [OF r2])
  have c3: "CurrentBlock n3 = Some b3" unfolding n3_def by (rule handle_not_first [OF r3(1)])
  have d2: "reaches_dispatch rs2 b2 n1"
    using r2 c1 t2 by (simp add: reaches_dispatch_later)
  have d3: "reaches_dispatch rs3 b3 n2"
    using r3 c2 by (simp add: reaches_dispatch_later)
  have d4: "reaches_dispatch rs4 b4 n3"
    using r4 c3 t4 by (simp add: reaches_dispatch_later)
  have h: "hooks n1 = hooks n" "hooks n2 = hooks n" "hooks n3 = hooks n"
    by (simp_all add: n1_def n2_def n3_def)
  have e1: "\<exists>es. trace n1 = trace n @ es" unfolding n1_def by (rule handle_extends)
  have e2: "\<exists>es. trace n2 = trace n1 @ es" unfolding n2_def by (rule handle_extends)
  have e3: "\<exists>es. trace n3 = trace n2 @ es" unfolding n3_def by (rule handle_extends)
  have e4: "\<exists>es. trace n4 = trace n3 @ es" unfolding n4_def by (rule handle_extends)
  have e12: "\<exists>es. trace n2 = trace n @ es" using e1 e2 by auto
  have e13: "\<exists>es. trace n3 = trace n @ es" using e12 e3 by auto
  have split: "effects_since n n4 =
      effects_since n n1 @ effects_since n1 n2 @ effects_since n2 n3 @ effects_since n3 n4"
    using effects_since_trans [OF e13 e4] effects_since_trans [OF e12 e3]
          effects_since_trans [OF e1 e2] by simp
  have tr: "filter is_transition (effects_since n n4)
         = [Group_EpochTransition h1, Group_RoundTransition, Group_EpochTransition h3, Group_Suspend]"
    unfolding split n1_def [symmetric]
    using r1 d2 d3 d4 first c1 c2 c3 t1 t2 t3 t4
    by (simp add: n1_def n2_def n3_def n4_def handle_transitions)
  have cb: "filter is_hook_callback (effects_since n n4)
         = map (\<lambda>h. Hook_HandleNewBlockEarlyLocked h b1) (hooks n)
           @ map Hook_HandleEpochTransitionLocked (hooks n)
           @ map (\<lambda>h. Hook_HandleNewBlockLocked h b1) (hooks n)
           @ map (\<lambda>h. Hook_HandleNewBlockEarlyLocked h b2) (hooks n)
           @ map (\<lambda>h. Hook_HandleNewBlockLocked h b2) (hooks n)
           @ map (\<lambda>h. Hook_HandleNewBlockEarlyLocked h b3) (hooks n)
           @ map Hook_HandleEpochTransitionLocked (hooks n)
           @ map (\<lambda>h. Hook_HandleNewBlockLocked h b3) (hooks n)
           @ map (\<lambda>h. Hook_HandleNewBlockEarlyLocked h b4) (hooks n)
           @ map Hook_HandleEpochTransitionLocked (hooks n)
           @ map (\<lambda>h. Hook_HandleNewBlockLocked h b4) (hooks n)"
    unfolding split
    using r1 d2 d3 d4 first c1 c2 c3 t1 t2 t3 t4 h
    by (simp add: n1_def n2_def n3_def n4_def handle_hook_callbacks)
  show ?thesis using tr cb unfolding n4_def n3_def n2_def n1_def by blast
qed

lemma handle_order:
  assumes rd: "reaches_dispatch rs blk n"
      and known: "\<forall>v. HeaderType (Header blk) \<noteq> UnknownType v"
  shows "\<exists>D L. effects_since n (handleNewBlockLocked rs blk height n) =
            [MetricInc ProcessedBlockCount]
            @ map (\<lambda>h. Hook_HandleNewBlockEarlyLocked h blk) (hooks n)
            @ D
            @ [TxPool_ProcessBlock
                \<lparr>RuntimeBlock = CurrentBlock (handleNewBlockLocked rs blk height n),
                 ConsensusBlock = CurrentConsensusBlock (handleNewBlockLocked rs blk height n),
                 Epoch = CurrentEpoch (handleNewBlockLocked rs blk height n),
                 ActiveDescriptor = CurrentDescriptor (handleNewBlockLocked rs blk height n)\<rparr>]
            @ L
            @ map (\<lambda>h. Hook_HandleNewBlockLocked h blk) (hooks n)
          \<and> filter is_transition D
              = spec_dispatch (CurrentBlock n = None) (HeaderType (Header blk)) height
          \<and> filter is_block_callback D = [] \<and> filter is_pool_update D = []
          \<and> filter is_transition L = [] \<and> filter is_hook_callback L = []
          \<and> filter is_pool_update L = []"
proof -
  from rd obtain lb where lb: "GetLightBlock_r rs = Inr lb"
    by (cases "GetLightBlock_r rs") (simp_all add: reaches_dispatch_def)
  from rd have ok: "CurrentBlock n = None \<or> HeaderType (Header blk) = EpochTransition
      \<longrightarrow> refresh_succeeds rs"
    by (simp add: reaches_dispatch_def)
  from lb ok obtain D m where
    eq: "handleNewBlockLocked rs blk height n =
        emit ([MetricInc ProcessedBlockCount]
              @ map (\<lambda>h. Hook_HandleNewBlockEarlyLocked h blk) (hooks n)
              @ D
              @ (case HeaderType (Header blk) of
                   UnknownType v \<Rightarrow> []
                 | _ \<Rightarrow> [TxPool_ProcessBlock \<lparr>RuntimeBlock = Some blk, ConsensusBlock = Some lb,
                            Epoch = CurrentEpoch m, ActiveDescriptor = CurrentDescriptor m\<rparr>]
                        @ (case ProcessBlock_r rs of
                             Some err \<Rightarrow> [Log Error ''failed to process block in transaction pool'']
                           | None \<Rightarrow> [])
                        @ map (\<lambda>h. Hook_HandleNewBlockLocked h blk) (hooks n))) m"
    and m: "trace m = trace n" "CurrentBlock m = Some blk" "CurrentConsensusBlock m = Some lb"
    and D: "filter is_transition D = spec_dispatch (CurrentBlock n = None) (HeaderType (Header blk)) height"
      "filter is_pool_update D = []"
      "filter is_block_callback D = []"
    by (rule handle_dispatchedE [of rs lb n blk height])
  define L where "L = (case ProcessBlock_r rs of
                             Some err \<Rightarrow> [Log Error ''failed to process block in transaction pool'']
                           | None \<Rightarrow> [])"
  have L: "filter is_transition L = []" "filter is_hook_callback L = []" "filter is_pool_update L = []"
    by (simp_all add: L_def split: option.splits)
  have "effects_since n (handleNewBlockLocked rs blk height n) =
            [MetricInc ProcessedBlockCount]
            @ map (\<lambda>h. Hook_HandleNewBlockEarlyLocked h blk) (hooks n)
            @ D
            @ [TxPool_ProcessBlock
                \<lparr>RuntimeBlock = CurrentBlock (handleNewBlockLocked rs blk height n),
                 ConsensusBlock = CurrentConsensusBlock (handleNewBlockLocked rs blk height n),
                 Epoch = CurrentEpoch (handleNewBlockLocked rs blk height n),
                 ActiveDescriptor = CurrentDescriptor (handleNewBlockLocked rs blk height n)\<rparr>]
            @ L
            @ map (\<lambda>h. Hook_HandleNewBlockLocked h blk) (hooks n)"
    using known m unfolding L_def
    by (cases "HeaderType (Header blk)") (simp_all add: eq effects_since_def)
  with D L show ?thesis by blast
qed

lemma handler_effect_not_lifecycle:
  "list_all is_handler_effect es \<Longrightarrow>
     Close_quitCh \<notin> set es \<and> Close_initCh \<notin> set es \<and> Close_stopCh \<notin> set es
   \<and> TxPool_Stop \<notin> set es \<and> (\<forall>h. Hook_Initialized h \<notin> set es)"
  by (auto simp add: list_all_iff)

lemma run_deferred_eq:
  "run_deferred e n = (emit [e] n)\<lparr>quitCh := quitCh n \<or> e = Close_quitCh\<rparr>"
  by (cases e) (simp_all add: emit_def)

lemma fold_run_deferred:
  "fold run_deferred ds n = (emit ds n)\<lparr>quitCh := quitCh n \<or> Close_quitCh \<in> set ds\<rparr>"
proof (induction ds arbitrary: n)
  case Nil
  then show ?case by (simp add: emit_def)
next
  case (Cons d ds)
  have "fold run_deferred (d # ds) n = fold run_deferred ds (run_deferred d n)"
    by simp
  also have "\<dots> = (emit ds (run_deferred d n))
      \<lparr>quitCh := quitCh (run_deferred d n) \<or> Close_quitCh \<in> set ds\<rparr>"
    by (rule Cons.IH)
  also have "\<dots> = (emit (d # ds) n)\<lparr>quitCh := quitCh n \<or> Close_quitCh \<in> set (d # ds)\<rparr>"
    unfolding run_deferred_eq by (cases "d = Close_quitCh") (simp_all add: emit_def)
  finally show ?case .
qed

lemma worker_return_eq:
  "worker_return defers n =
     (Returned, (emit defers n)\<lparr>quitCh := quitCh n \<or> Close_quitCh \<in> set defers\<rparr>)"
  by (simp add: worker_return_def fold_run_deferred)

lemma handleNewEventLocked_eq:
  "handleNewEventLocked ev n =
     emit (MetricInc ProcessedEventCount # map (\<lambda>h. Hook_HandleNewEventLocked h ev) (hooks n)) n"
  by (simp add: handleNewEventLocked_def Let_def emit_emit)

lemma waitChildWorkers_shape:
  "\<exists>es. snd (waitChildWorkers hs sels n) = emit es n
      \<and> set es \<subseteq> range Hook_Initialized \<union> range (Log Info)
      \<and> (fst (waitChildWorkers hs sels n) = AllInitialized \<longrightarrow> es = map Hook_Initialized hs)"
proof (induction hs sels n rule: waitChildWorkers.induct)
  case (1 sels n)
  show ?case by (rule exI [of _ "[]"]) (simp add: emit_Nil)
next
  case (2 h hs n)
  show ?case by (rule exI [of _ "[]"]) (simp add: emit_Nil)
next
  case (3 h hs sels n)
  then obtain es where es: "snd (waitChildWorkers hs sels (emit [Hook_Initialized h] n))
        = emit es (emit [Hook_Initialized h] n)"
      "set es \<subseteq> range Hook_Initialized \<union> range (Log Info)"
      "fst (waitChildWorkers hs sels (emit [Hook_Initialized h] n)) = AllInitialized
         \<longrightarrow> es = map Hook_Initialized hs"
    by blast
  show ?case
    by (rule exI [of _ "Hook_Initialized h # es"]) (use es in \<open>auto simp add: emit_emit\<close>)
next
  case (4 h hs sels n)
  show ?case
    by (rule exI [of _ "[Log Info
          ''termination requested while waiting for child worker initialization'']"]) simp
qed

lemma map_no_initCh:
  "count_list (map (\<lambda>h. Hook_HandleNewEventLocked h ev) hs) Close_initCh = 0"
  "count_list (map (\<lambda>h. Hook_HandleRuntimeHostEvent h ev) hs) Close_initCh = 0"
  by (induction hs) simp_all

lemma worker_loop_trace:
  "\<exists>es. trace (snd (worker_loop defers init evs n)) =
          trace n @ es @ (if fst (worker_loop defers init evs n) = Returned then defers else [])
      \<and> Close_quitCh \<notin> set es \<and> Close_stopCh \<notin> set es \<and> TxPool_Stop \<notin> set es
      \<and> count_list es Close_initCh \<le> (if init then 0 else 1)
      \<and> (list_all (\<lambda>e. \<not> is_Sel_blocks e) evs \<longrightarrow> Close_initCh \<notin> set es)"
proof (induction defers init evs n rule: worker_loop.induct)
  case (1 defers initialized n)
  show ?case by simp
next
  case (2 defers initialized evs n)
  show ?case
    by (rule exI [of _ "[Log Info ''termination requested'']"]) (simp add: worker_return_eq)
next
  case (3 defers initialized evs n)
  show ?case by (rule exI [of _ "[]"]) (simp add: worker_return_eq)
next
  case (4 defers initialized h evs n)
  then show ?case by simp
next
  case (5 defers initialized blk height sels rs evs n)
  show ?case
  proof (cases initialized)
    case True
    obtain hs where hs: "trace (handleNewBlockLocked rs blk height n) = trace n @ hs"
        "list_all is_handler_effect hs"
      using handle_trace [of rs blk height n] by blast
    from 5(2) True obtain es where es:
      "trace (snd (worker_loop defers True evs (handleNewBlockLocked rs blk height n))) =
          trace (handleNewBlockLocked rs blk height n) @ es
          @ (if fst (worker_loop defers True evs (handleNewBlockLocked rs blk height n)) = Returned
             then defers else [])"
      "Close_quitCh \<notin> set es" "Close_stopCh \<notin> set es" "TxPool_Stop \<notin> set es"
      "count_list es Close_initCh \<le> 0"
      by auto
    show ?thesis
      by (rule exI [of _ "hs @ es"])
         (use True es hs handler_effect_not_lifecycle [OF hs(2)] in simp)
  next
    case False
    define n3 where "n3 = emit [Log Debug ''common worker is initialized'', Close_initCh,
        Log Debug ''waiting for child worker initialization''] (n\<lparr>initCh := True\<rparr>)"
    have n3: "emit [Log Debug ''waiting for child worker initialization'']
        (emit [Close_initCh] ((emit [Log Debug ''common worker is initialized''] n)
           \<lparr>initCh := True\<rparr>)) = n3"
      by (simp add: n3_def emit_def)
    have hooks_n3: "hooks n3 = hooks n" by (simp add: n3_def)
    define w where "w = waitChildWorkers (hooks n) sels n3"
    obtain ws where ws: "snd w = emit ws n3"
        "set ws \<subseteq> range Hook_Initialized \<union> range (Log Info)"
      using waitChildWorkers_shape [of "hooks n" sels n3] unfolding w_def by blast
    have ws_no: "Close_quitCh \<notin> set ws" "Close_stopCh \<notin> set ws" "TxPool_Stop \<notin> set ws"
        "Close_initCh \<notin> set ws"
      using ws(2) by auto
    have tr_w: "trace (snd w) = trace n @ [Log Debug ''common worker is initialized'', Close_initCh,
        Log Debug ''waiting for child worker initialization''] @ ws"
      by (simp add: ws(1) n3_def)
    have unfold: "worker_loop defers False (Sel_blocks blk height sels rs # evs) n =
        (case fst w of
           StopRequested \<Rightarrow> worker_return defers (snd w)
         | StillWaiting \<Rightarrow> (Waiting, snd w)
         | AllInitialized \<Rightarrow>
             worker_loop defers True evs
               (handleNewBlockLocked rs blk height
                  (emit [Log Debug ''all child workers are initialized''] (snd w))))"
      by (simp add: Let_def n3 hooks_n3 w_def cong: wait_result.case_cong)
    show ?thesis
    proof (cases "fst w")
      case StopRequested
      show ?thesis
        by (rule exI [of _ "[Log Debug ''common worker is initialized'', Close_initCh,
              Log Debug ''waiting for child worker initialization''] @ ws"])
           (use False StopRequested ws_no tr_w in \<open>simp add: unfold worker_return_eq del: worker_loop.simps\<close>)
    next
      case StillWaiting
      show ?thesis
        by (rule exI [of _ "[Log Debug ''common worker is initialized'', Close_initCh,
              Log Debug ''waiting for child worker initialization''] @ ws"])
           (use False StillWaiting ws_no tr_w in \<open>simp add: unfold del: worker_loop.simps\<close>)
    next
      case AllInitialized
      define m0 where "m0 = emit [Log Debug ''all child workers are initialized''] (snd w)"
      obtain hs where hs: "trace (handleNewBlockLocked rs blk height m0) = trace m0 @ hs"
          "list_all is_handler_effect hs"
        using handle_trace [of rs blk height m0] by blast
      have "fst (waitChildWorkers
              (hooks (emit [Log Debug ''waiting for child worker initialization'']
                (emit [Close_initCh] ((emit [Log Debug ''common worker is initialized''] n)
                   \<lparr>initCh := True\<rparr>)))) sels
              (emit [Log Debug ''waiting for child worker initialization'']
                (emit [Close_initCh] ((emit [Log Debug ''common worker is initialized''] n)
                   \<lparr>initCh := True\<rparr>)))) = AllInitialized"
        using AllInitialized unfolding n3 hooks_n3 w_def .
      from 5(1) [OF False refl refl refl refl this]
      obtain es where es:
        "trace (snd (worker_loop defers True evs (handleNewBlockLocked rs blk height m0))) =
          trace (handleNewBlockLocked rs blk height m0) @ es
          @ (if fst (worker_loop defers True evs (handleNewBlockLocked rs blk height m0)) = Returned
             then defers else [])"
        "Close_quitCh \<notin> set es" "Close_stopCh \<notin> set es" "TxPool_Stop \<notin> set es"
        "count_list es Close_initCh \<le> 0"
        unfolding n3 hooks_n3 w_def [symmetric] m0_def [symmetric] by auto
      show ?thesis
        by (rule exI [of _ "[Log Debug ''common worker is initialized'', Close_initCh,
              Log Debug ''waiting for child worker initialization''] @ ws
              @ [Log Debug ''all child workers are initialized''] @ hs @ es"])
           (use False AllInitialized ws_no tr_w es hs handler_effect_not_lifecycle [OF hs(2)]
             in \<open>simp add: unfold m0_def [symmetric] del: worker_loop.simps, simp add: m0_def\<close>)
    qed
  qed
next
  case (6 defers initialized ev evs n)
  then obtain es where es:
    "trace (snd (worker_loop defers initialized evs (handleNewEventLocked ev n))) =
          trace (handleNewEventLocked ev n) @ es
          @ (if fst (worker_loop defers initialized evs (handleNewEventLocked ev n)) = Returned
             then defers else [])"
    "Close_quitCh \<notin> set es" "Close_stopCh \<notin> set es" "TxPool_Stop \<notin> set es"
    "count_list es Close_initCh \<le> (if initialized then 0 else 1)"
    "list_all (\<lambda>e. \<not> is_Sel_blocks e) evs \<longrightarrow> Close_initCh \<notin> set es"
    by blast
  show ?case
    by (rule exI [of _ "(MetricInc ProcessedEventCount
            # map (\<lambda>h. Hook_HandleNewEventLocked h ev) (hooks n)) @ es"])
       (use es map_no_initCh in \<open>auto simp add: handleNewEventLocked_eq\<close>)
next
  case (7 defers initialized ev evs n)
  then obtain es where es:
    "trace (snd (worker_loop defers initialized evs (handleRuntimeHostEvent ev n))) =
          trace (handleRuntimeHostEvent ev n) @ es
          @ (if fst (worker_loop defers initialized evs (handleRuntimeHostEvent ev n)) = Returned
             then defers else [])"
    "Close_quitCh \<notin> set es" "Close_stopCh \<notin> set es" "TxPool_Stop \<notin> set es"
    "count_list es Close_initCh \<le> (if initialized then 0 else 1)"
    "list_all (\<lambda>e. \<not> is_Sel_blocks e) evs \<longrightarrow> Close_initCh \<notin> set es"
    by blast
  show ?case
    by (rule exI [of _ "map (\<lambda>h. Hook_HandleRuntimeHostEvent h ev) (hooks n) @ es"])
       (use es map_no_initCh in \<open>auto simp add: handleRuntimeHostEvent_def\<close>)
qed

lemma worker_loop_invariant:
  assumes "I n"
      and emitI: "\<And>m es. I m \<Longrightarrow> I (emit es m)"
      and heightI: "\<And>m h. I m \<Longrightarrow> I (m\<lparr>Height := h\<rparr>)"
      and initI: "\<And>m. I m \<Longrightarrow> I (m\<lparr>initCh := True\<rparr>)"
      and quitI: "\<And>m b. I m \<Longrightarrow> I (m\<lparr>quitCh := b\<rparr>)"
      and resp: "list_all (responses_satisfy R) evs"
      and handleI: "\<And>m rs blk height. I m \<Longrightarrow> R rs \<Longrightarrow> I (handleNewBlockLocked rs blk height m)"
  shows "I (snd (worker_loop defers init evs n))"
  using assms(1) resp
proof (induction defers init evs n rule: worker_loop.induct)
  case (1 defers initialized n)
  then show ?case by simp
next
  case (2 defers initialized evs n)
  then show ?case by (simp add: worker_return_eq emitI quitI)
next
  case (3 defers initialized evs n)
  then show ?case by (simp add: worker_return_eq emitI quitI)
next
  case (4 defers initialized h evs n)
  then show ?case by (simp add: heightI)
next
  case (5 defers initialized blk height sels rs evs n)
  from "5.prems" have In: "I n" and Rrs: "R rs"
    and rest: "list_all (responses_satisfy R) evs"
    by simp_all
  show ?case
  proof (cases initialized)
    case True
    with "5.IH"(2) [OF _ handleI [OF In Rrs] rest] show ?thesis by simp
  next
    case False
    define n3 where "n3 = emit [Log Debug ''waiting for child worker initialization'']
        (emit [Close_initCh] ((emit [Log Debug ''common worker is initialized''] n)
           \<lparr>initCh := True\<rparr>))"
    define w where "w = waitChildWorkers (hooks n3) sels n3"
    have I3: "I n3" unfolding n3_def by (intro emitI initI In)
    obtain ws where ws: "snd w = emit ws n3"
      using waitChildWorkers_shape [of "hooks n3" sels n3] unfolding w_def by blast
    have Iw: "I (snd w)" unfolding ws by (rule emitI [OF I3])
    have unfold: "worker_loop defers False (Sel_blocks blk height sels rs # evs) n =
        (case fst w of
           StopRequested \<Rightarrow> worker_return defers (snd w)
         | StillWaiting \<Rightarrow> (Waiting, snd w)
         | AllInitialized \<Rightarrow>
             worker_loop defers True evs
               (handleNewBlockLocked rs blk height
                  (emit [Log Debug ''all child workers are initialized''] (snd w))))"
      by (simp add: Let_def n3_def w_def cong: wait_result.case_cong)
    show ?thesis
    proof (cases "fst w")
      case AllInitialized
      have "I (snd (worker_loop defers True evs
               (handleNewBlockLocked rs blk height
                  (emit [Log Debug ''all child workers are initialized''] (snd w)))))"
        using "5.IH"(1) [OF False refl refl refl refl, folded n3_def, folded w_def,
                    OF AllInitialized handleI [OF emitI [OF Iw] Rrs] rest] .
      with False AllInitialized show ?thesis
        by (simp add: unfold del: worker_loop.simps)
    next
      case StopRequested
      with False Iw show ?thesis
        by (simp add: unfold worker_return_eq emitI quitI del: worker_loop.simps)
    next
      case StillWaiting
      with False Iw show ?thesis
        by (simp add: unfold del: worker_loop.simps)
    qed
  qed
next
  case (6 defers initialized ev evs n)
  then show ?case by (simp add: handleNewEventLocked_eq emitI)
next
  case (7 defers initialized ev evs n)
  then show ?case by (simp add: handleRuntimeHostEvent_def emitI)
qed

lemma worker_subscribe_Inr:
  "worker_subscribe su ds n = Inr (defers, n') \<Longrightarrow>
     defers = [HrtNotifier_Stop, Hrt_Stop, Sub_Close ''hrtSub'', Sub_Close ''eventsSub'',
               Sub_Close ''blocksSub'', Sub_Close ''consensusBlocksSub''] @ ds
   \<and> n' = emit [Hrt_Start, HrtNotifier_Start] n"
  by (auto simp add: worker_subscribe_def Let_def emit_emit split: option.splits)

lemma worker_subscribe_Inl:
  "worker_subscribe su [CancelCtx, Close_quitCh] n = Inl (st, n') \<Longrightarrow>
     st = Returned
   \<and> (\<exists>es. trace n' = trace n @ es \<and> Close_initCh \<notin> set es \<and> Close_stopCh \<notin> set es \<and> TxPool_Stop \<notin> set es
          \<and> count_list es Close_quitCh = 1 \<and> es \<noteq> [] \<and> last es = Close_quitCh)
   \<and> CurrentDescriptor n' = CurrentDescriptor n"
  by (auto simp add: worker_subscribe_def worker_return_eq Let_def split: option.splits)

lemma waitKeyManager_Inr:
  "waitKeyManager su rt [CancelCtx, Close_quitCh] n = Inr n' \<Longrightarrow>
     (\<exists>es. trace n' = trace n @ es \<and> Close_initCh \<notin> set es \<and> Close_stopCh \<notin> set es \<and> TxPool_Stop \<notin> set es \<and> Close_quitCh \<notin> set es)
   \<and> CurrentDescriptor n' = CurrentDescriptor n \<and> hooks n' = hooks n
   \<and> initCh n' = initCh n \<and> quitCh n' = quitCh n"
  by (auto simp add: waitKeyManager_def worker_return_eq Let_def
           split: option.splits if_splits km_select.splits)

lemma waitKeyManager_Inl:
  "waitKeyManager su rt [CancelCtx, Close_quitCh] n = Inl (st, n') \<Longrightarrow>
     (\<exists>es. trace n' = trace n @ es \<and> Close_initCh \<notin> set es \<and> Close_stopCh \<notin> set es \<and> TxPool_Stop \<notin> set es
          \<and> count_list es Close_quitCh = (if st = Returned then 1 else 0)
          \<and> (st = Returned \<longrightarrow> es \<noteq> [] \<and> last es = Close_quitCh))
   \<and> CurrentDescriptor n' = CurrentDescriptor n"
  by (auto simp add: waitKeyManager_def worker_return_eq Let_def
           split: option.splits if_splits km_select.splits)

lemma worker_startup_Inr:
  assumes "worker_startup su n = Inr (defers, n')"
  shows "defers = [HrtNotifier_Stop, Hrt_Stop, Sub_Close ''hrtSub'', Sub_Close ''eventsSub'',
               Sub_Close ''blocksSub'', Sub_Close ''consensusBlocksSub'', CancelCtx, Close_quitCh]
     \<and> (\<exists>rt. select_sync su = Sync_Synced \<and> ActiveDescriptor_r su = Some (Inr rt)
             \<and> CurrentDescriptor n' = Some rt)
     \<and> (\<exists>es. trace n' = trace n @ es \<and> Close_initCh \<notin> set es \<and> Close_stopCh \<notin> set es \<and> TxPool_Stop \<notin> set es \<and> Close_quitCh \<notin> set es)
     \<and> hooks n' = hooks n \<and> initCh n' = initCh n \<and> quitCh n' = quitCh n"
proof -
  from assms obtain rt n1 where
    sync: "select_sync su = Sync_Synced" "ActiveDescriptor_r su = Some (Inr rt)"
    and km: "waitKeyManager su rt [CancelCtx, Close_quitCh]
        ((emit [Log Info ''starting committee node'',
                Log Info ''delaying worker start until after initial synchronization'',
                Log Info ''consensus has finished initial synchronization'',
                Log Info ''runtime is registered with the registry''] n)
           \<lparr>CurrentDescriptor := Some rt\<rparr>) = Inr n1"
    and sub: "worker_subscribe su [CancelCtx, Close_quitCh] n1 = Inr (defers, n')"
    by (auto simp add: worker_startup_def worker_return_eq Let_def emit_emit
             split: sync_select.splits option.splits sum.splits)
  from waitKeyManager_Inr [OF km] worker_subscribe_Inr [OF sub] sync
  show ?thesis by auto
qed

lemma worker_startup_Inl:
  assumes "worker_startup su n = Inl (st, n')"
  shows "(\<exists>es. trace n' = trace n @ es \<and> Close_initCh \<notin> set es \<and> Close_stopCh \<notin> set es \<and> TxPool_Stop \<notin> set es
          \<and> count_list es Close_quitCh = (if st = Returned then 1 else 0)
          \<and> (st = Returned \<longrightarrow> es \<noteq> [] \<and> last es = Close_quitCh))
     \<and> (\<forall>rt. select_sync su = Sync_Synced \<and> ActiveDescriptor_r su = Some (Inr rt)
             \<longrightarrow> CurrentDescriptor n' = Some rt)"
proof (cases "select_sync su = Sync_Synced \<and> (\<exists>rt. ActiveDescriptor_r su = Some (Inr rt))")
  case False
  with assms show ?thesis
    by (auto simp add: worker_startup_def worker_return_eq Let_def emit_emit
             split: sync_select.splits option.splits sum.splits)
next
  case True
  then obtain rt where sync: "select_sync su = Sync_Synced" "ActiveDescriptor_r su = Some (Inr rt)"
    by blast
  define n0 where "n0 = (emit [Log Info ''starting committee node'',
                Log Info ''delaying worker start until after initial synchronization'',
                Log Info ''consensus has finished initial synchronization'',
                Log Info ''runtime is registered with the registry''] n)
           \<lparr>CurrentDescriptor := Some rt\<rparr>"
  have n0: "trace n0 = trace n @ [Log Info ''starting committee node'',
                Log Info ''delaying worker start until after initial synchronization'',
                Log Info ''consensus has finished initial synchronization'',
                Log Info ''runtime is registered with the registry'']"
      "CurrentDescriptor n0 = Some rt"
    by (simp_all add: n0_def)
  have eq: "worker_startup su n =
      (case waitKeyManager su rt [CancelCtx, Close_quitCh] n0 of
         Inl r \<Rightarrow> Inl r
       | Inr n1 \<Rightarrow> worker_subscribe su [CancelCtx, Close_quitCh] n1)"
    using sync by (simp add: worker_startup_def Let_def emit_emit n0_def)
  show ?thesis
  proof (cases "waitKeyManager su rt [CancelCtx, Close_quitCh] n0")
    case (Inl r)
    with assms eq have "waitKeyManager su rt [CancelCtx, Close_quitCh] n0 = Inl (st, n')"
      by simp
    from waitKeyManager_Inl [OF this] n0 sync show ?thesis by auto
  next
    case (Inr n1)
    with assms eq have sub: "worker_subscribe su [CancelCtx, Close_quitCh] n1 = Inl (st, n')"
      by simp
    from waitKeyManager_Inr [OF Inr] worker_subscribe_Inl [OF sub] n0 sync
    show ?thesis by auto
  qed
qed

lemma worker_trace:
  "\<exists>es. trace (snd (worker su evs n)) = trace n @ es
      \<and> count_list es Close_initCh \<le> 1
      \<and> (list_all (\<lambda>e. \<not> is_Sel_blocks e) evs \<longrightarrow> Close_initCh \<notin> set es)
      \<and> count_list es Close_quitCh = (if fst (worker su evs n) = Returned then 1 else 0)
      \<and> (fst (worker su evs n) = Returned \<longrightarrow> es \<noteq> [] \<and> last es = Close_quitCh)
      \<and> Close_stopCh \<notin> set es \<and> TxPool_Stop \<notin> set es"
proof (cases "worker_startup su n")
  case (Inl r)
  obtain st n' where r: "r = (st, n')" by (cases r)
  from worker_startup_Inl [OF Inl [unfolded r]] obtain es where
    "trace n' = trace n @ es" "Close_initCh \<notin> set es" "Close_stopCh \<notin> set es"
    "TxPool_Stop \<notin> set es"
    "count_list es Close_quitCh = (if st = Returned then 1 else 0)"
    "st = Returned \<longrightarrow> es \<noteq> [] \<and> last es = Close_quitCh"
    by blast
  then show ?thesis
    by (intro exI [of _ es]) (simp add: worker_def Inl r)
next
  case (Inr p)
  obtain defers m where p: "p = (defers, m)" by (cases p)
  from worker_startup_Inr [OF Inr [unfolded p]] obtain es1 where
    d: "defers = [HrtNotifier_Stop, Hrt_Stop, Sub_Close ''hrtSub'', Sub_Close ''eventsSub'',
               Sub_Close ''blocksSub'', Sub_Close ''consensusBlocksSub'', CancelCtx, Close_quitCh]"
    and es1: "trace m = trace n @ es1" "Close_initCh \<notin> set es1" "Close_stopCh \<notin> set es1"
      "TxPool_Stop \<notin> set es1" "Close_quitCh \<notin> set es1"
    by blast
  from worker_loop_trace [of defers False evs m] obtain es where
    es: "trace (snd (worker_loop defers False evs m)) =
          trace m @ es @ (if fst (worker_loop defers False evs m) = Returned then defers else [])"
      "Close_quitCh \<notin> set es" "Close_stopCh \<notin> set es" "TxPool_Stop \<notin> set es"
      "count_list es Close_initCh \<le> 1"
      "list_all (\<lambda>e. \<not> is_Sel_blocks e) evs \<longrightarrow> Close_initCh \<notin> set es"
    by auto
  have w: "worker su evs n = worker_loop defers False evs m"
    by (simp add: worker_def Inr p)
  show ?thesis
    by (intro exI [of _ "es1 @ es @ (if fst (worker_loop defers False evs m) = Returned
                                      then defers else [])"])
       (use es es1 in \<open>auto simp add: w d\<close>)
qed

lemma worker_descriptor:
  assumes "select_sync su = Sync_Synced" and "ActiveDescriptor_r su = Some (Inr rt)"
      and ok: "list_all (responses_satisfy descriptor_returned) evs"
  shows "CurrentDescriptor (snd (worker su evs n)) \<noteq> None"
proof (cases "worker_startup su n")
  case (Inl r)
  obtain st n' where r: "r = (st, n')" by (cases r)
  from worker_startup_Inl [OF Inl [unfolded r]] assms
  show ?thesis by (simp add: worker_def Inl r)
next
  case (Inr p)
  obtain defers m where p: "p = (defers, m)" by (cases p)
  from worker_startup_Inr [OF Inr [unfolded p]] have m: "CurrentDescriptor m \<noteq> None"
    by auto
  have "CurrentDescriptor (snd (worker_loop defers False evs m)) \<noteq> None"
  proof (rule worker_loop_invariant
            [where I = "\<lambda>m. CurrentDescriptor m \<noteq> None" and R = descriptor_returned, OF m])
    fix m :: Node and rs blk height
    assume "CurrentDescriptor m \<noteq> None" and "descriptor_returned rs"
    then show "CurrentDescriptor (handleNewBlockLocked rs blk height m) \<noteq> None"
      using handle_descriptor [of rs blk height m] by (auto simp add: descriptor_returned_def)
  qed (simp_all add: ok)
  then show ?thesis by (simp add: worker_def Inr p)
qed

lemma Stop_again: "stopOnce n \<Longrightarrow> Stop n = n"
  by (simp add: Stop_def)

lemma Stop_first:
  "\<not> stopOnce n \<Longrightarrow>
     Stop n = (emit [Close_stopCh, TxPool_Stop] n)\<lparr>stopCh := True, stopOnce := True\<rparr>"
  by (simp add: Stop_def Let_def emit_def)

lemma Stop_funpow_done: "stopOnce n \<Longrightarrow> (Stop ^^ k) n = n"
  by (induction k) (simp_all add: Stop_again)

lemma Stop_funpow:
  "\<not> stopOnce n \<Longrightarrow> 0 < k \<Longrightarrow> (Stop ^^ k) n = Stop n"
proof (induction k)
  case 0
  then show ?case by simp
next
  case (Suc k)
  show ?case
  proof (cases k)
    case 0
    then show ?thesis by simp
  next
    case (Suc j)
    with Suc.IH Suc.prems have "(Stop ^^ k) n = Stop n" by simp
    moreover have "stopOnce (Stop n)" using Suc.prems by (simp add: Stop_first)
    ultimately show ?thesis by (simp add: Stop_again)
  qed
qed

lemma waitChildWorkers_fst:
  "fst (waitChildWorkers hs sels n) = fst (waitChildWorkers hs sels n')"
  by (induction hs sels n arbitrary: n' rule: waitChildWorkers.induct) auto

lemma handle_trace_first:
  "\<exists>es. trace (handleNewBlockLocked rs blk height n)
          = trace n @ MetricInc ProcessedBlockCount # es"
proof (cases rule: handle_paths [of rs blk n])
  case (fetch_failed e)
  then show ?thesis by (simp add: handle_fetch_failed)
next
  case (refresh_failed lb)
  then show ?thesis
    by (simp add: handle_refresh_abort split: option.splits)
next
  case (dispatched lb)
  from dispatched(1,3) obtain D m where
    "handleNewBlockLocked rs blk height n =
        emit ([MetricInc ProcessedBlockCount]
              @ map (\<lambda>h. Hook_HandleNewBlockEarlyLocked h blk) (hooks n)
              @ D
              @ (case HeaderType (Header blk) of
                   UnknownType v \<Rightarrow> []
                 | _ \<Rightarrow> [TxPool_ProcessBlock \<lparr>RuntimeBlock = Some blk, ConsensusBlock = Some lb,
                            Epoch = CurrentEpoch m, ActiveDescriptor = CurrentDescriptor m\<rparr>]
                        @ (case ProcessBlock_r rs of
                             Some err \<Rightarrow> [Log Error ''failed to process block in transaction pool'']
                           | None \<Rightarrow> [])
                        @ map (\<lambda>h. Hook_HandleNewBlockLocked h blk) (hooks n))) m"
    "trace m = trace n"
    by (rule handle_dispatchedE [of rs lb n blk height])
  then show ?thesis by simp
qed

lemma responses_satisfy_True: "list_all (responses_satisfy (\<lambda>rs. True)) evs"
proof (induction evs)
  case Nil
  then show ?case by simp
next
  case (Cons e evs)
  then show ?case by (cases e) simp_all
qed

lemma worker_loop_initCh:
  "initCh n \<Longrightarrow> initCh (snd (worker_loop defers init evs n))"
  by (rule worker_loop_invariant [where I = initCh and R = "\<lambda>rs. True"])
     (simp_all add: handle_other_fields responses_satisfy_True)

lemma worker_loop_first_block:
  "worker_loop defers False (Sel_blocks blk height sels rs # evs) n =
     (case fst (waitChildWorkers (hooks n) sels n) of
        StopRequested \<Rightarrow>
          worker_return defers
            (snd (waitChildWorkers (hooks n) sels
               (emit [Log Debug ''common worker is initialized'', Close_initCh,
                      Log Debug ''waiting for child worker initialization'']
                  (n\<lparr>initCh := True\<rparr>))))
      | StillWaiting \<Rightarrow>
          (Waiting,
            snd (waitChildWorkers (hooks n) sels
               (emit [Log Debug ''common worker is initialized'', Close_initCh,
                      Log Debug ''waiting for child worker initialization'']
                  (n\<lparr>initCh := True\<rparr>))))
      | AllInitialized \<Rightarrow>
          worker_loop defers True evs
            (handleNewBlockLocked rs blk height
               (emit [Log Debug ''all child workers are initialized'']
                  (snd (waitChildWorkers (hooks n) sels
                     (emit [Log Debug ''common worker is initialized'', Close_initCh,
                            Log Debug ''waiting for child worker initialization'']
                        (n\<lparr>initCh := True\<rparr>)))))))"
proof -
  have n3: "emit [Log Debug ''waiting for child worker initialization'']
        (emit [Close_initCh] ((emit [Log Debug ''common worker is initialized''] n)
           \<lparr>initCh := True\<rparr>)) =
      emit [Log Debug ''common worker is initialized'', Close_initCh,
            Log Debug ''waiting for child worker initialization''] (n\<lparr>initCh := True\<rparr>)"
    by (simp add: emit_def)
  have fw: "fst (waitChildWorkers (hooks n) sels
               (emit [Log Debug ''common worker is initialized'', Close_initCh,
                      Log Debug ''waiting for child worker initialization'']
                  (n\<lparr>initCh := True\<rparr>)))
        = fst (waitChildWorkers (hooks n) sels n)"
    by (rule waitChildWorkers_fst)
  show ?thesis
    by (simp add: Let_def n3 fw cong: wait_result.case_cong)
qed

lemma first_block_effects:
  "initCh (snd (worker_loop defers False (Sel_blocks blk height sels rs # evs) n))
 \<and> (\<exists>rest. trace (snd (worker_loop defers False (Sel_blocks blk height sels rs # evs) n))
            = trace n @ [Log Debug ''common worker is initialized'', Close_initCh,
                         Log Debug ''waiting for child worker initialization''] @ rest
        \<and> (fst (waitChildWorkers (hooks n) sels n) = AllInitialized \<longrightarrow>
             (\<exists>rest'. rest = map Hook_Initialized (hooks n)
                          @ [Log Debug ''all child workers are initialized'',
                             MetricInc ProcessedBlockCount] @ rest'))
        \<and> (fst (waitChildWorkers (hooks n) sels n) \<noteq> AllInitialized
             \<and> MetricInc ProcessedBlockCount \<notin> set defers \<longrightarrow>
             MetricInc ProcessedBlockCount \<notin> set rest))"
proof -
  define n3 where "n3 = emit [Log Debug ''common worker is initialized'', Close_initCh,
        Log Debug ''waiting for child worker initialization''] (n\<lparr>initCh := True\<rparr>)"
  define w where "w = waitChildWorkers (hooks n) sels n3"
  have fw: "fst (waitChildWorkers (hooks n) sels n) = fst w"
    unfolding w_def by (rule waitChildWorkers_fst)
  obtain ws where ws: "snd w = emit ws n3"
      "set ws \<subseteq> range Hook_Initialized \<union> range (Log Info)"
      "fst w = AllInitialized \<longrightarrow> ws = map Hook_Initialized (hooks n)"
    using waitChildWorkers_shape [of "hooks n" sels n3] unfolding w_def by blast
  have ws_no: "MetricInc ProcessedBlockCount \<notin> set ws" using ws(2) by auto
  have tr_w: "trace (snd w) = trace n @ [Log Debug ''common worker is initialized'', Close_initCh,
        Log Debug ''waiting for child worker initialization''] @ ws"
    and init_w: "initCh (snd w)"
    by (simp_all add: ws(1) n3_def)
  note unfold = worker_loop_first_block [of defers blk height sels rs evs n,
      folded n3_def, folded w_def, unfolded fw]
  show ?thesis
  proof (cases "fst w")
    case StopRequested
    then show ?thesis
      using tr_w init_w ws_no
      by (simp add: unfold fw worker_return_eq del: worker_loop.simps)
  next
    case StillWaiting
    then show ?thesis
      using tr_w init_w ws_no
      by (simp add: unfold fw del: worker_loop.simps)
  next
    case AllInitialized
    define m0 where "m0 = emit [Log Debug ''all child workers are initialized''] (snd w)"
    define m1 where "m1 = handleNewBlockLocked rs blk height m0"
    obtain hs where hs: "trace m1 = trace m0 @ MetricInc ProcessedBlockCount # hs"
      using handle_trace_first [of rs blk height m0] unfolding m1_def by blast
    have init1: "initCh m1"
      using init_w by (simp add: m1_def m0_def handle_other_fields)
    obtain es where es: "trace (snd (worker_loop defers True evs m1)) =
          trace m1 @ es @ (if fst (worker_loop defers True evs m1) = Returned then defers else [])"
      using worker_loop_trace [of defers True evs m1] by blast
    have res: "worker_loop defers False (Sel_blocks blk height sels rs # evs) n
        = worker_loop defers True evs m1"
      using AllInitialized by (simp add: unfold m1_def m0_def del: worker_loop.simps)
    have ws_eq: "ws = map Hook_Initialized (hooks n)" using ws(3) AllInitialized by simp
    have tr: "trace (snd (worker_loop defers True evs m1)) =
        trace n @ [Log Debug ''common worker is initialized'', Close_initCh,
                   Log Debug ''waiting for child worker initialization'']
        @ (map Hook_Initialized (hooks n)
           @ [Log Debug ''all child workers are initialized'', MetricInc ProcessedBlockCount]
           @ (hs @ es @ (if fst (worker_loop defers True evs m1) = Returned then defers else [])))"
      by (simp add: es hs m0_def tr_w ws_eq)
    show ?thesis
      unfolding res fw
      using AllInitialized worker_loop_initCh [OF init1, of defers True evs] tr
      by (intro conjI exI [of _ "map Hook_Initialized (hooks n)
           @ [Log Debug ''all child workers are initialized'', MetricInc ProcessedBlockCount]
           @ (hs @ es @ (if fst (worker_loop defers True evs m1) = Returned then defers else []))"])
         (simp_all del: worker_loop.simps)
  qed
qed

lemmas worker_eval_defs = worker_def worker_startup_def waitKeyManager_def worker_subscribe_def
  worker_return_def ok_startup_def AddHooks_def NewNode_def ok_responses_def block_of_def
  emit_def Let_def effects_since_def

lemma QueueTx_result:
  "fst (QueueTx Add tx s) =
     (case fst (Add tx (txPool s)) of
        None \<Rightarrow> None
      | Some e \<Rightarrow> if e = ErrCallAlreadyExists then None else Some e)"
  by (simp add: QueueTx_def Let_def split: prod.splits option.splits)

lemma QueueTx_pool: "txPool (snd (QueueTx Add tx s)) = snd (Add tx (txPool s))"
  by (simp add: QueueTx_def Let_def split: prod.splits option.splits)

lemma pool_Add_duplicate:
  "tx_hash tx \<in> set (map tx_hash (pool_queue p)) \<Longrightarrow> pool_Add tx p = (Some ErrCallAlreadyExists, p)"
  by (simp add: pool_Add_def)

lemma pool_Add_reports_duplicate:
  "fst (pool_Add tx p) = Some ErrCallAlreadyExists \<Longrightarrow> snd (pool_Add tx p) = p"
  by (simp add: pool_Add_def split: if_splits)

lemma handle_unknown_trace:
  assumes rd: "reaches_dispatch rs blk n" and un: "HeaderType (Header blk) = UnknownType v"
  shows "effects_since n (handleNewBlockLocked rs blk height n) =
           [MetricInc ProcessedBlockCount]
           @ map (\<lambda>h. Hook_HandleNewBlockEarlyLocked h blk) (hooks n)
           @ [Log Error ''invalid block type'']"
proof -
  from rd obtain lb where lb: "GetLightBlock_r rs = Inr lb"
    by (cases "GetLightBlock_r rs") (simp_all add: reaches_dispatch_def)
  show ?thesis
  proof (cases "CurrentBlock n = None")
    case True
    with rd have "refresh_succeeds rs" by (simp add: reaches_dispatch_def)
    then show ?thesis
      using True un
      by (simp add: handle_after_fetch [OF lb] updateActiveDescriptor_ok
            dispatchHeaderType_def effects_since_def)
  next
    case False
    then obtain b where "CurrentBlock n = Some b" by auto
    then show ?thesis
      using un
      by (simp add: handle_after_fetch [OF lb] dispatchHeaderType_def effects_since_def)
  qed
qed

lemma handle_ends_with_log:
  assumes un: "HeaderType (Header blk) = UnknownType v"
  shows "\<exists>msg. effects_since n (handleNewBlockLocked rs blk height n) \<noteq> []
           \<and> last (effects_since n (handleNewBlockLocked rs blk height n)) = Log Error msg"
proof (cases rule: handle_paths [of rs blk n])
  case (fetch_failed e)
  then show ?thesis by (simp add: handle_fetch_failed effects_since_def)
next
  case (refresh_failed lb)
  then show ?thesis
    by (simp add: handle_refresh_abort effects_since_def split: option.splits)
next
  case (dispatched lb)
  then show ?thesis by (simp add: handle_unknown_trace [OF dispatched(2) un])
qed

lemma handle_current_block:
  "CurrentBlock (handleNewBlockLocked rs blk height n) =
     (if isl (GetLightBlock_r rs) then CurrentBlock n else Some blk)"
  using handle_committed [of rs _ blk height n]
  by (cases "GetLightBlock_r rs") (simp_all add: handle_fetch_failed)

lemma handle_descriptor_reset:
  assumes "\<not> isl (GetLightBlock_r rs)"
      and "CurrentBlock n = None \<or> HeaderType (Header blk) = EpochTransition"
      and "GetRuntime_r rs = (None, None)"
  shows "CurrentDescriptor (handleNewBlockLocked rs blk height n) = None"
proof -
  from assms(1) obtain lb where lb: "GetLightBlock_r rs = Inr lb"
    by (cases "GetLightBlock_r rs") simp_all
  show ?thesis
  proof (cases "refresh_succeeds rs")
    case True
    with lb assms(2) have "reaches_dispatch rs blk n" by (simp add: reaches_dispatch_def)
    from handle_refreshed [OF this, of height] assms(2,3) show ?thesis by auto
  next
    case False
    from handle_refresh_abort [OF lb assms(2) False, of height] assms(3)
    show ?thesis by simp
  qed
qed

lemma waitChildWorkers_stop_shape:
  "\<exists>ws. set ws \<subseteq> range Hook_Initialized
      \<and> snd (waitChildWorkers hs sels n) =
          emit (ws @ (if fst (waitChildWorkers hs sels n) = StopRequested
                      then [Log Info
                        ''termination requested while waiting for child worker initialization'']
                      else [])) n"
proof (induction hs sels n rule: waitChildWorkers.induct)
  case (1 sels n)
  show ?case by (rule exI [of _ "[]"]) (simp add: emit_Nil)
next
  case (2 h hs n)
  show ?case by (rule exI [of _ "[]"]) (simp add: emit_Nil)
next
  case (3 h hs sels n)
  then obtain ws where ws: "set ws \<subseteq> range Hook_Initialized"
      "snd (waitChildWorkers hs sels (emit [Hook_Initialized h] n)) =
          emit (ws @ (if fst (waitChildWorkers hs sels (emit [Hook_Initialized h] n))
                          = StopRequested
                      then [Log Info
                        ''termination requested while waiting for child worker initialization'']
                      else [])) (emit [Hook_Initialized h] n)"
    by blast
  show ?case
    by (rule exI [of _ "Hook_Initialized h # ws"]) (use ws in \<open>auto simp add: emit_emit\<close>)
next
  case (4 h hs sels n)
  show ?case by (rule exI [of _ "[]"]) simp
qed

lemma waitChildWorkers_stop_at:
  "k < length hs \<Longrightarrow>
   fst (waitChildWorkers hs (replicate k Child_Initialized @ Child_stopCh # sels) n) = StopRequested"
proof (induction k arbitrary: hs n)
  case 0
  then show ?case by (cases hs) simp_all
next
  case (Suc k)
  then show ?case by (cases hs) simp_all
qed

lemma waitChildWorkers_all:
  "length hs \<le> k \<Longrightarrow>
   fst (waitChildWorkers hs (replicate k Child_Initialized @ sels) n) = AllInitialized"
proof (induction k arbitrary: hs n)
  case 0
  then show ?case by simp
next
  case (Suc k)
  then show ?case by (cases hs) simp_all
qed

lemma first_block_not_handled:
  assumes "fst (waitChildWorkers (hooks n) sels n) \<noteq> AllInitialized"
  shows "fst (worker_loop defers False (Sel_blocks blk height sels rs # evs) n)
           = (if fst (waitChildWorkers (hooks n) sels n) = StopRequested then Returned else Waiting)
       \<and> protected (snd (worker_loop defers False (Sel_blocks blk height sels rs # evs) n))
           = protected n
       \<and> (\<exists>ws. set ws \<subseteq> range Hook_Initialized
            \<and> trace (snd (worker_loop defers False (Sel_blocks blk height sels rs # evs) n))
               = trace n @ [Log Debug ''common worker is initialized'', Close_initCh,
                            Log Debug ''waiting for child worker initialization'']
                 @ ws
                 @ (if fst (waitChildWorkers (hooks n) sels n) = StopRequested
                    then [Log Info
                      ''termination requested while waiting for child worker initialization'']
                      @ defers
                    else []))"
proof -
  define n3 where "n3 = emit [Log Debug ''common worker is initialized'', Close_initCh,
        Log Debug ''waiting for child worker initialization''] (n\<lparr>initCh := True\<rparr>)"
  define w where "w = waitChildWorkers (hooks n) sels n3"
  have fw: "fst (waitChildWorkers (hooks n) sels n) = fst w"
    unfolding w_def by (rule waitChildWorkers_fst)
  obtain ws where ws: "set ws \<subseteq> range Hook_Initialized"
      "snd w = emit (ws @ (if fst w = StopRequested
                      then [Log Info
                        ''termination requested while waiting for child worker initialization'']
                      else [])) n3"
    using waitChildWorkers_stop_shape [of "hooks n" sels n3] unfolding w_def by blast
  note unfold = worker_loop_first_block [of defers blk height sels rs evs n,
      folded n3_def, folded w_def, unfolded fw]
  show ?thesis
  proof (cases "fst w")
    case AllInitialized
    with assms fw show ?thesis by simp
  next
    case StopRequested
    show ?thesis
      unfolding fw
      by (intro conjI exI [of _ ws])
         (use StopRequested ws in
           \<open>simp_all add: unfold worker_return_eq n3_def protected_def del: worker_loop.simps\<close>)
  next
    case StillWaiting
    show ?thesis
      unfolding fw
      by (intro conjI exI [of _ ws])
         (use StillWaiting ws in
           \<open>simp_all add: unfold n3_def protected_def del: worker_loop.simps\<close>)
  qed
qed

lemma first_block_closes_once:
  assumes "Close_initCh \<notin> set defers"
  shows "count_list (effects_since n
            (snd (worker_loop defers False (Sel_blocks blk height sels rs # evs) n)))
           Close_initCh = 1"
proof -
  from worker_loop_trace [of defers False "Sel_blocks blk height sels rs # evs" n]
  obtain es where es:
    "trace (snd (worker_loop defers False (Sel_blocks blk height sels rs # evs) n)) =
       trace n @ es
       @ (if fst (worker_loop defers False (Sel_blocks blk height sels rs # evs) n) = Returned
          then defers else [])"
    "count_list es Close_initCh \<le> 1"
    by auto
  from first_block_effects [of defers blk height sels rs evs n]
  obtain rest where rest:
    "trace (snd (worker_loop defers False (Sel_blocks blk height sels rs # evs) n))
       = trace n @ [Log Debug ''common worker is initialized'', Close_initCh,
                    Log Debug ''waiting for child worker initialization''] @ rest"
    by blast
  have le: "count_list (effects_since n
            (snd (worker_loop defers False (Sel_blocks blk height sels rs # evs) n)))
           Close_initCh \<le> 1"
    using es assms by (simp add: effects_since_def del: worker_loop.simps)
  have ge: "1 \<le> count_list (effects_since n
            (snd (worker_loop defers False (Sel_blocks blk height sels rs # evs) n)))
           Close_initCh"
    by (simp add: rest effects_since_def del: worker_loop.simps)
  from le ge show ?thesis by simp
qed

section \<open>Claims\<close>

text \<open>
  C4.  When the fetch of the consensus light block at the block's height fails, the
  handler returns with the protected state exactly as it was, and the only effects are
  the processed-block counter and the error log: no hook is called and the pool is not
  updated.
\<close>

theorem C4_light_block_failure_discards:
  "GetLightBlock_r rs = Inl err \<Longrightarrow>
     protected (handleNewBlockLocked rs blk height n) = protected n
   \<and> Height (handleNewBlockLocked rs blk height n) = Height n
   \<and> trace (handleNewBlockLocked rs blk height n)
       = trace n @ [MetricInc ProcessedBlockCount, Log Error ''failed to query light block'']"
  by (simp add: handleNewBlockLocked_def protected_def Let_def)

theorem C4_light_block_failure_discards_witness:
  "GetLightBlock_r ((ok_responses 7 2)\<lparr>GetLightBlock_r := Inl (ErrOther ''unavailable'')\<rparr>)
     = Inl (ErrOther ''unavailable'')
   \<and> protected (handleNewBlockLocked
         ((ok_responses 7 2)\<lparr>GetLightBlock_r := Inl (ErrOther ''unavailable'')\<rparr>)
         (block_of Normal 1) 7 (AddHooks 0 NewNode)) = protected (AddHooks 0 NewNode)
   \<and> trace (handleNewBlockLocked
         ((ok_responses 7 2)\<lparr>GetLightBlock_r := Inl (ErrOther ''unavailable'')\<rparr>)
         (block_of Normal 1) 7 (AddHooks 0 NewNode))
       = [MetricInc ProcessedBlockCount, Log Error ''failed to query light block'']"
  using C4_light_block_failure_discards
          [of "(ok_responses 7 2)\<lparr>GetLightBlock_r := Inl (ErrOther ''unavailable'')\<rparr>"
              "ErrOther ''unavailable''" "block_of Normal 1" 7 "AddHooks 0 NewNode"]
  by (simp add: ok_responses_def AddHooks_def NewNode_def)

text \<open>
  C1 (as amended).  On a first block (\<open>CurrentBlock\<close> is still nil) the handler never
  performs a round transition.  When it reaches the switch on the header type (the light
  block was fetched and the refresh went through) it performs exactly one epoch
  transition for a Normal, RoundFailed or EpochTransition block, and exactly one suspend
  and no epoch transition for a Suspended block; when it does not reach the switch it
  performs no transition at all.
\<close>

theorem C1_first_block_transition:
  assumes "CurrentBlock n = None"
  shows "Group_RoundTransition \<notin> set (effects_since n (handleNewBlockLocked rs blk height n))
     \<and> (reaches_dispatch rs blk n
          \<and> HeaderType (Header blk) \<in> {Normal, RoundFailed, EpochTransition} \<longrightarrow>
        filter is_transition (effects_since n (handleNewBlockLocked rs blk height n))
          = [Group_EpochTransition height])
     \<and> (reaches_dispatch rs blk n \<and> HeaderType (Header blk) = Suspended \<longrightarrow>
        filter is_transition (effects_since n (handleNewBlockLocked rs blk height n))
          = [Group_Suspend])
     \<and> (\<not> reaches_dispatch rs blk n \<longrightarrow>
        filter is_transition (effects_since n (handleNewBlockLocked rs blk height n)) = [])"
proof -
  have "Group_RoundTransition \<notin> set (filter is_transition
          (effects_since n (handleNewBlockLocked rs blk height n)))"
    unfolding handle_transitions using assms
    by (cases "HeaderType (Header blk)") simp_all
  then have "Group_RoundTransition \<notin> set (effects_since n (handleNewBlockLocked rs blk height n))"
    using in_filter_transition by blast
  moreover have "reaches_dispatch rs blk n
          \<and> HeaderType (Header blk) \<in> {Normal, RoundFailed, EpochTransition} \<longrightarrow>
        filter is_transition (effects_since n (handleNewBlockLocked rs blk height n))
          = [Group_EpochTransition height]"
    unfolding handle_transitions using assms by auto
  moreover have "reaches_dispatch rs blk n \<and> HeaderType (Header blk) = Suspended \<longrightarrow>
        filter is_transition (effects_since n (handleNewBlockLocked rs blk height n))
          = [Group_Suspend]"
    unfolding handle_transitions by simp
  moreover have "\<not> reaches_dispatch rs blk n \<longrightarrow>
        filter is_transition (effects_since n (handleNewBlockLocked rs blk height n)) = []"
    unfolding handle_transitions by simp
  ultimately show ?thesis by blast
qed

theorem C1_first_block_transition_witness:
  "CurrentBlock (AddHooks 0 NewNode) = None
   \<and> reaches_dispatch (ok_responses 7 2) (block_of Normal 1) (AddHooks 0 NewNode)
   \<and> HeaderType (Header (block_of Normal 1)) \<in> {Normal, RoundFailed, EpochTransition}
   \<and> filter is_transition (effects_since (AddHooks 0 NewNode)
        (handleNewBlockLocked (ok_responses 7 2) (block_of Normal 1) 7 (AddHooks 0 NewNode)))
       = [Group_EpochTransition 7]
   \<and> Group_RoundTransition \<notin> set (effects_since (AddHooks 0 NewNode)
        (handleNewBlockLocked (ok_responses 7 2) (block_of Normal 1) 7 (AddHooks 0 NewNode)))
   \<and> reaches_dispatch (ok_responses 7 2) (block_of Suspended 1) (AddHooks 0 NewNode)
   \<and> filter is_transition (effects_since (AddHooks 0 NewNode)
        (handleNewBlockLocked (ok_responses 7 2) (block_of Suspended 1) 7 (AddHooks 0 NewNode)))
       = [Group_Suspend]"
  using C1_first_block_transition [of "AddHooks 0 NewNode" "ok_responses 7 2" "block_of Normal 1" 7]
        C1_first_block_transition [of "AddHooks 0 NewNode" "ok_responses 7 2" "block_of Suspended 1" 7]
  by (simp add: example_defs)

theorem C1_first_block_counterexample:
  "CurrentBlock NewNode = None
   \<and> filter is_transition (effects_since NewNode
        (handleNewBlockLocked (ok_responses 7 2) (block_of Suspended 1) 7 NewNode))
       = [Group_Suspend]
   \<and> count_list (effects_since NewNode
        (handleNewBlockLocked (ok_responses 7 2) (block_of Suspended 1) 7 NewNode))
        (Group_EpochTransition 7) = 0
   \<and> filter is_transition (effects_since NewNode
        (handleNewBlockLocked ((ok_responses 7 2)\<lparr>GetLightBlock_r := Inl (ErrOther ''unavailable'')\<rparr>)
           (block_of Normal 1) 7 NewNode))
       = []"
  by (simp add: eval_defs)

text \<open>
  C5.  During the refresh on a first block or an EpochTransition block: when the
  descriptor lookup fails with "no such runtime" (\<open>errors.Is\<close>), \<open>CurrentDescriptor\<close>
  keeps its value, the epoch is refreshed, and (the epoch lookup succeeding) the handler
  goes on to the dispatch and to the pool update with the retained descriptor; when the
  lookup fails with any other error the handler returns at once, with only the current
  block committed and the error logged.
\<close>

theorem C5_descriptor_refresh:
  assumes need: "CurrentBlock n = None \<or> HeaderType (Header blk) = EpochTransition"
      and lb: "GetLightBlock_r rs = Inr lb"
      and rt: "snd (GetRuntime_r rs) = Some e"
  shows "(errors_Is e ErrNoSuchRuntime \<longrightarrow>
            CurrentDescriptor (handleNewBlockLocked rs blk height n) = CurrentDescriptor n
          \<and> CurrentEpoch (handleNewBlockLocked rs blk height n) = fst (GetEpoch_r rs)
          \<and> (snd (GetEpoch_r rs) = None \<longrightarrow>
                filter is_transition (effects_since n (handleNewBlockLocked rs blk height n))
                  = spec_dispatch (CurrentBlock n = None) (HeaderType (Header blk)) height
              \<and> filter is_pool_update (effects_since n (handleNewBlockLocked rs blk height n))
                  = (case HeaderType (Header blk) of
                       UnknownType v \<Rightarrow> []
                     | _ \<Rightarrow> [TxPool_ProcessBlock
                              \<lparr>RuntimeBlock = Some blk, ConsensusBlock = Some lb,
                               Epoch = fst (GetEpoch_r rs),
                               ActiveDescriptor = CurrentDescriptor n\<rparr>])))
       \<and> (\<not> errors_Is e ErrNoSuchRuntime \<longrightarrow>
            handleNewBlockLocked rs blk height n =
              emit [MetricInc ProcessedBlockCount,
                    Log Error ''failed to query runtime descriptor'']
                (n\<lparr>CurrentBlock := Some blk, CurrentBlockHeight := height,
                   CurrentConsensusBlock := Some lb\<rparr>))"
proof (intro conjI impI)
  assume "\<not> errors_Is e ErrNoSuchRuntime"
  then have "\<not> refresh_succeeds rs" using rt by (simp add: refresh_succeeds_def)
  then show "handleNewBlockLocked rs blk height n =
              emit [MetricInc ProcessedBlockCount,
                    Log Error ''failed to query runtime descriptor'']
                (n\<lparr>CurrentBlock := Some blk, CurrentBlockHeight := height,
                   CurrentConsensusBlock := Some lb\<rparr>)"
    using handle_refresh_abort [OF lb need, of height] rt \<open>\<not> errors_Is e ErrNoSuchRuntime\<close>
    by simp
next
  assume nsr: "errors_Is e ErrNoSuchRuntime"
  show "CurrentDescriptor (handleNewBlockLocked rs blk height n) = CurrentDescriptor n"
  proof (cases "refresh_succeeds rs")
    case True
    then have "reaches_dispatch rs blk n" using lb by (simp add: reaches_dispatch_def)
    then show ?thesis using handle_refreshed [of rs blk n height] need rt by auto
  next
    case False
    then show ?thesis using handle_refresh_abort [OF lb need, of height] rt nsr by simp
  qed
  show "CurrentEpoch (handleNewBlockLocked rs blk height n) = fst (GetEpoch_r rs)"
  proof (cases "refresh_succeeds rs")
    case True
    then have "reaches_dispatch rs blk n" using lb by (simp add: reaches_dispatch_def)
    then show ?thesis using handle_refreshed [of rs blk n height] need by auto
  next
    case False
    then show ?thesis using handle_refresh_abort [OF lb need, of height] rt nsr by simp
  qed
next
  assume nsr: "errors_Is e ErrNoSuchRuntime" and ep: "snd (GetEpoch_r rs) = None"
  then have ok: "refresh_succeeds rs" using rt by (simp add: refresh_succeeds_def)
  then have rd: "reaches_dispatch rs blk n" using lb by (simp add: reaches_dispatch_def)
  show "filter is_transition (effects_since n (handleNewBlockLocked rs blk height n))
                  = spec_dispatch (CurrentBlock n = None) (HeaderType (Header blk)) height"
    using rd by (simp add: handle_transitions)
  show "filter is_pool_update (effects_since n (handleNewBlockLocked rs blk height n))
                  = (case HeaderType (Header blk) of
                       UnknownType v \<Rightarrow> []
                     | _ \<Rightarrow> [TxPool_ProcessBlock
                              \<lparr>RuntimeBlock = Some blk, ConsensusBlock = Some lb,
                               Epoch = fst (GetEpoch_r rs),
                               ActiveDescriptor = CurrentDescriptor n\<rparr>])"
    using rd handle_refreshed [OF rd, of height] handle_committed [OF lb, of blk height n] need rt
    by (cases "HeaderType (Header blk)") (auto simp add: handle_pool_updates)
qed

theorem C5_descriptor_refresh_witness:
  "(CurrentBlock (AddHooks 0 NewNode) = None
      \<or> HeaderType (Header (block_of Normal 1)) = EpochTransition)
   \<and> GetLightBlock_r ((ok_responses 7 2)\<lparr>GetRuntime_r := (None, Some ErrNoSuchRuntime)\<rparr>) = Inr \<lparr>lb_Height = 7\<rparr>
   \<and> snd (GetRuntime_r ((ok_responses 7 2)\<lparr>GetRuntime_r := (None, Some ErrNoSuchRuntime)\<rparr>))
       = Some ErrNoSuchRuntime
   \<and> errors_Is ErrNoSuchRuntime ErrNoSuchRuntime
   \<and> CurrentDescriptor (handleNewBlockLocked ((ok_responses 7 2)\<lparr>GetRuntime_r := (None, Some ErrNoSuchRuntime)\<rparr>)
        (block_of Normal 1) 7 (AddHooks 0 NewNode)) = CurrentDescriptor (AddHooks 0 NewNode)
   \<and> CurrentEpoch (handleNewBlockLocked ((ok_responses 7 2)\<lparr>GetRuntime_r := (None, Some ErrNoSuchRuntime)\<rparr>)
        (block_of Normal 1) 7 (AddHooks 0 NewNode)) = 2
   \<and> filter is_transition (effects_since (AddHooks 0 NewNode)
        (handleNewBlockLocked ((ok_responses 7 2)\<lparr>GetRuntime_r := (None, Some ErrNoSuchRuntime)\<rparr>)
        (block_of Normal 1) 7 (AddHooks 0 NewNode))) = [Group_EpochTransition 7]
   \<and> \<not> errors_Is (ErrOther ''timeout'') ErrNoSuchRuntime
   \<and> handleNewBlockLocked ((ok_responses 7 2)\<lparr>GetRuntime_r := (None, Some (ErrOther ''timeout''))\<rparr>)
        (block_of Normal 1) 7 (AddHooks 0 NewNode)
      = emit [MetricInc ProcessedBlockCount, Log Error ''failed to query runtime descriptor'']
           ((AddHooks 0 NewNode)\<lparr>CurrentBlock := Some (block_of Normal 1), CurrentBlockHeight := 7,
              CurrentConsensusBlock := Some \<lparr>lb_Height = 7\<rparr>\<rparr>)"
  using C5_descriptor_refresh
          [of "AddHooks 0 NewNode" "block_of Normal 1"
              "(ok_responses 7 2)\<lparr>GetRuntime_r := (None, Some ErrNoSuchRuntime)\<rparr>" "\<lparr>lb_Height = 7\<rparr>"
              ErrNoSuchRuntime 7]
        C5_descriptor_refresh
          [of "AddHooks 0 NewNode" "block_of Normal 1"
              "(ok_responses 7 2)\<lparr>GetRuntime_r := (None, Some (ErrOther ''timeout''))\<rparr>" "\<lparr>lb_Height = 7\<rparr>"
              "ErrOther ''timeout''" 7]
  by (simp add: example_defs)

text \<open>
  C8 (as amended).  For every block that reaches the dispatch with one of the four
  named header types, the handler's effects come in this order: the processed-block
  counter, every hook's early notification, the dispatch (whose only transition is the
  one prescribed for the header type: epoch transition, round transition or suspend), the
  transaction pool's \<open>ProcessBlock\<close>, then every hook's new-block callback.  The
  blocks Normal (first), Normal, EpochTransition, Suspended, every lookup succeeding,
  yield the sequence of group transitions epoch transition (forced), round transition,
  epoch transition, suspend.  Hooks are told of the first, third and fourth through
  their epoch-transition callback; the round transition goes to the committee group
  only, so between the early and the new-block callback of the second block no hook is
  called.
\<close>

theorem C8_order_of_steps:
  "(reaches_dispatch rs blk n \<and> (\<forall>v. HeaderType (Header blk) \<noteq> UnknownType v) \<longrightarrow>
     (\<exists>D L. effects_since n (handleNewBlockLocked rs blk height n) =
            [MetricInc ProcessedBlockCount]
            @ map (\<lambda>h. Hook_HandleNewBlockEarlyLocked h blk) (hooks n)
            @ D
            @ [TxPool_ProcessBlock
                \<lparr>RuntimeBlock = CurrentBlock (handleNewBlockLocked rs blk height n),
                 ConsensusBlock = CurrentConsensusBlock (handleNewBlockLocked rs blk height n),
                 Epoch = CurrentEpoch (handleNewBlockLocked rs blk height n),
                 ActiveDescriptor = CurrentDescriptor (handleNewBlockLocked rs blk height n)\<rparr>]
            @ L
            @ map (\<lambda>h. Hook_HandleNewBlockLocked h blk) (hooks n)
          \<and> filter is_transition D
              = spec_dispatch (CurrentBlock n = None) (HeaderType (Header blk)) height
          \<and> filter is_block_callback D = [] \<and> filter is_pool_update D = []
          \<and> filter is_transition L = [] \<and> filter is_hook_callback L = []
          \<and> filter is_pool_update L = []))
 \<and> (CurrentBlock n0 = None
     \<and> HeaderType (Header b1) = Normal \<and> HeaderType (Header b2) = Normal
     \<and> HeaderType (Header b3) = EpochTransition \<and> HeaderType (Header b4) = Suspended
     \<and> reaches_dispatch rs1 b1 n0 \<and> \<not> isl (GetLightBlock_r rs2)
     \<and> \<not> isl (GetLightBlock_r rs3) \<and> refresh_succeeds rs3 \<and> \<not> isl (GetLightBlock_r rs4) \<longrightarrow>
     filter is_transition (effects_since n0
           (handleNewBlockLocked rs4 b4 h4 (handleNewBlockLocked rs3 b3 h3
             (handleNewBlockLocked rs2 b2 h2 (handleNewBlockLocked rs1 b1 h1 n0)))))
         = [Group_EpochTransition h1, Group_RoundTransition, Group_EpochTransition h3, Group_Suspend]
     \<and> filter is_hook_callback (effects_since n0
           (handleNewBlockLocked rs4 b4 h4 (handleNewBlockLocked rs3 b3 h3
             (handleNewBlockLocked rs2 b2 h2 (handleNewBlockLocked rs1 b1 h1 n0)))))
         = map (\<lambda>h. Hook_HandleNewBlockEarlyLocked h b1) (hooks n0)
           @ map Hook_HandleEpochTransitionLocked (hooks n0)
           @ map (\<lambda>h. Hook_HandleNewBlockLocked h b1) (hooks n0)
           @ map (\<lambda>h. Hook_HandleNewBlockEarlyLocked h b2) (hooks n0)
           @ map (\<lambda>h. Hook_HandleNewBlockLocked h b2) (hooks n0)
           @ map (\<lambda>h. Hook_HandleNewBlockEarlyLocked h b3) (hooks n0)
           @ map Hook_HandleEpochTransitionLocked (hooks n0)
           @ map (\<lambda>h. Hook_HandleNewBlockLocked h b3) (hooks n0)
           @ map (\<lambda>h. Hook_HandleNewBlockEarlyLocked h b4) (hooks n0)
           @ map Hook_HandleEpochTransitionLocked (hooks n0)
           @ map (\<lambda>h. Hook_HandleNewBlockLocked h b4) (hooks n0))"
  using handle_order [of rs blk n height]
        scenario_effects [of n0 b1 b2 b3 b4 rs1 rs2 rs3 rs4 h4 h3 h2 h1]
  by blast

theorem C8_order_of_steps_witness:
  "reaches_dispatch (ok_responses 8 2) (block_of Normal 2) running_node
   \<and> (\<forall>v. HeaderType (Header (block_of Normal 2)) \<noteq> UnknownType v)
   \<and> (\<exists>D L. effects_since running_node
               (handleNewBlockLocked (ok_responses 8 2) (block_of Normal 2) 8 running_node) =
            [MetricInc ProcessedBlockCount]
            @ [Hook_HandleNewBlockEarlyLocked 0 (block_of Normal 2)]
            @ D
            @ [TxPool_ProcessBlock
                \<lparr>RuntimeBlock = CurrentBlock
                   (handleNewBlockLocked (ok_responses 8 2) (block_of Normal 2) 8 running_node),
                 ConsensusBlock = CurrentConsensusBlock
                   (handleNewBlockLocked (ok_responses 8 2) (block_of Normal 2) 8 running_node),
                 Epoch = CurrentEpoch
                   (handleNewBlockLocked (ok_responses 8 2) (block_of Normal 2) 8 running_node),
                 ActiveDescriptor = CurrentDescriptor
                   (handleNewBlockLocked (ok_responses 8 2) (block_of Normal 2) 8 running_node)\<rparr>]
            @ L
            @ [Hook_HandleNewBlockLocked 0 (block_of Normal 2)]
          \<and> filter is_transition D = [Group_RoundTransition]
          \<and> filter is_block_callback D = [] \<and> filter is_pool_update D = []
          \<and> filter is_transition L = [] \<and> filter is_hook_callback L = []
          \<and> filter is_pool_update L = [])
   \<and> CurrentBlock (AddHooks 0 NewNode) = None
   \<and> reaches_dispatch (ok_responses 7 2) (block_of Normal 1) (AddHooks 0 NewNode)
   \<and> refresh_succeeds (ok_responses 9 3)
   \<and> filter is_transition (effects_since (AddHooks 0 NewNode) (scenario_run (AddHooks 0 NewNode)))
       = [Group_EpochTransition 7, Group_RoundTransition, Group_EpochTransition 9, Group_Suspend]"
  using C8_order_of_steps
          [of "ok_responses 8 2" "block_of Normal 2" running_node 8
              "AddHooks 0 NewNode" "block_of Normal 1" "block_of Normal 2"
              "block_of EpochTransition 3" "block_of Suspended 4"
              "ok_responses 7 2" "ok_responses 8 2" "ok_responses 9 3" "ok_responses 10 3"
              10 9 8 7]
  by (simp add: example_defs scenario_run_def)

theorem C8_hook_notifications_counterexample:
  "filter is_hook_callback (effects_since (AddHooks 0 NewNode) (scenario_run (AddHooks 0 NewNode)))
     = [Hook_HandleNewBlockEarlyLocked 0 (block_of Normal 1),
        Hook_HandleEpochTransitionLocked 0,
        Hook_HandleNewBlockLocked 0 (block_of Normal 1),
        Hook_HandleNewBlockEarlyLocked 0 (block_of Normal 2),
        Hook_HandleNewBlockLocked 0 (block_of Normal 2),
        Hook_HandleNewBlockEarlyLocked 0 (block_of EpochTransition 3),
        Hook_HandleEpochTransitionLocked 0,
        Hook_HandleNewBlockLocked 0 (block_of EpochTransition 3),
        Hook_HandleNewBlockEarlyLocked 0 (block_of Suspended 4),
        Hook_HandleEpochTransitionLocked 0,
        Hook_HandleNewBlockLocked 0 (block_of Suspended 4)]"
  using scenario_effects
          [of "AddHooks 0 NewNode" "block_of Normal 1" "block_of Normal 2"
              "block_of EpochTransition 3" "block_of Suspended 4"
              "ok_responses 7 2" "ok_responses 8 2" "ok_responses 9 3" "ok_responses 10 3"
              10 9 8 7]
  by (simp add: example_defs scenario_run_def)

text \<open>
  C7.  \<open>Stop\<close> is idempotent.  From a node whose \<open>stopOnce\<close> is unset, any positive
  number of calls closes the stop channel exactly once and stops the pool exactly once;
  once the flag is set further calls change nothing; the worker itself does neither.
  The worker closes the quit channel exactly once if it returns and not at all while it
  is still waiting, and the close is the last thing it does.
\<close>

theorem C7_stop_idempotent:
  "Stop (Stop n) = Stop n
 \<and> (\<not> stopOnce n \<and> 0 < k \<longrightarrow>
      count_list (effects_since n ((Stop ^^ k) n)) Close_stopCh = 1
    \<and> count_list (effects_since n ((Stop ^^ k) n)) TxPool_Stop = 1
    \<and> stopCh ((Stop ^^ k) n))
 \<and> (stopOnce n \<longrightarrow> (Stop ^^ k) n = n)
 \<and> count_list (effects_since n (snd (worker su evs n))) Close_quitCh
      = (if fst (worker su evs n) = Returned then 1 else 0)
 \<and> (fst (worker su evs n) = Returned \<longrightarrow> last (trace (snd (worker su evs n))) = Close_quitCh)
 \<and> Close_stopCh \<notin> set (effects_since n (snd (worker su evs n)))
 \<and> TxPool_Stop \<notin> set (effects_since n (snd (worker su evs n)))"
proof -
  have "Stop (Stop n) = Stop n"
    by (cases "stopOnce n") (simp_all add: Stop_again Stop_first)
  moreover have "\<not> stopOnce n \<and> 0 < k \<longrightarrow>
      count_list (effects_since n ((Stop ^^ k) n)) Close_stopCh = 1
    \<and> count_list (effects_since n ((Stop ^^ k) n)) TxPool_Stop = 1
    \<and> stopCh ((Stop ^^ k) n)"
    by (simp add: Stop_funpow Stop_first effects_since_def)
  moreover have "stopOnce n \<longrightarrow> (Stop ^^ k) n = n"
    by (simp add: Stop_funpow_done)
  moreover from worker_trace [of su evs n] obtain es where
    "trace (snd (worker su evs n)) = trace n @ es"
    "count_list es Close_quitCh = (if fst (worker su evs n) = Returned then 1 else 0)"
    "fst (worker su evs n) = Returned \<longrightarrow> es \<noteq> [] \<and> last es = Close_quitCh"
    "Close_stopCh \<notin> set es" "TxPool_Stop \<notin> set es"
    by blast
  then have "count_list (effects_since n (snd (worker su evs n))) Close_quitCh
      = (if fst (worker su evs n) = Returned then 1 else 0)
   \<and> (fst (worker su evs n) = Returned \<longrightarrow> last (trace (snd (worker su evs n))) = Close_quitCh)
   \<and> Close_stopCh \<notin> set (effects_since n (snd (worker su evs n)))
   \<and> TxPool_Stop \<notin> set (effects_since n (snd (worker su evs n)))"
    by (simp add: effects_since_def)
  ultimately show ?thesis by blast
qed

theorem C7_stop_idempotent_witness:
  "\<not> stopOnce NewNode \<and> (0::nat) < 3
 \<and> count_list (effects_since NewNode ((Stop ^^ 3) NewNode)) Close_stopCh = 1
 \<and> count_list (effects_since NewNode ((Stop ^^ 3) NewNode)) TxPool_Stop = 1
 \<and> stopCh ((Stop ^^ 3) NewNode)
 \<and> stopOnce (Stop NewNode) \<and> (Stop ^^ 2) (Stop NewNode) = Stop NewNode
 \<and> fst (worker ok_startup [Sel_stopCh] NewNode) = Returned
 \<and> count_list (effects_since NewNode (snd (worker ok_startup [Sel_stopCh] NewNode))) Close_quitCh = 1
 \<and> last (trace (snd (worker ok_startup [Sel_stopCh] NewNode))) = Close_quitCh"
proof -
  have a: "\<not> stopOnce NewNode \<and> (0::nat) < 3" by (simp add: NewNode_def)
  have b: "stopOnce (Stop NewNode)" by (simp add: Stop_def NewNode_def Let_def)
  have c: "fst (worker ok_startup [Sel_stopCh] NewNode) = Returned"
    by (simp add: worker_eval_defs)
  show ?thesis
    using a b c C7_stop_idempotent [of NewNode 3 ok_startup "[Sel_stopCh]"]
          C7_stop_idempotent [of "Stop NewNode" 2 ok_startup "[]"]
    by simp
qed

text \<open>
  C6.  Through the scheduler facade, whatever pool sits behind it: when the pool's
  \<open>Add\<close> reports \<open>ErrCallAlreadyExists\<close> the facade returns no error, exactly as
  for a newly admitted transaction; any other error is returned as it is; and the
  facade does nothing to the pool beyond the call of \<open>Add\<close>.  For the pool of the
  specification a transaction whose identifier is queued is reported as a duplicate and
  leaves the pool, and so its size, as it was.
\<close>

theorem C6_duplicate_is_success:
  "(fst (Add tx (txPool s)) = Some ErrCallAlreadyExists \<longrightarrow> fst (QueueTx Add tx s) = None)
 \<and> (fst (Add tx (txPool s)) = None \<longrightarrow> fst (QueueTx Add tx s) = None)
 \<and> (fst (Add tx (txPool s)) = Some e \<and> e \<noteq> ErrCallAlreadyExists \<longrightarrow>
      fst (QueueTx Add tx s) = Some e)
 \<and> txPool (snd (QueueTx Add tx s)) = snd (Add tx (txPool s))
 \<and> (fst (pool_Add ctx (txPool ps)) = Some ErrCallAlreadyExists \<longrightarrow>
      fst (QueueTx pool_Add ctx ps) = None
    \<and> UnscheduledSize pool_Size (snd (QueueTx pool_Add ctx ps)) = UnscheduledSize pool_Size ps)
 \<and> (tx_hash ctx \<in> set (map tx_hash (pool_queue (txPool ps))) \<longrightarrow>
      fst (pool_Add ctx (txPool ps)) = Some ErrCallAlreadyExists)"
  by (simp add: QueueTx_result QueueTx_pool UnscheduledSize_def pool_Add_reports_duplicate
        pool_Add_duplicate)

theorem C6_duplicate_is_success_witness:
  "fst (pool_Add \<lparr>tx_hash = 10, tx_priority = 1, tx_weights = [(0, 10)]\<rparr>
         \<lparr>pool_cfg = \<lparr>MaxPoolSize = 2, WeightLimits = [(0, 1000)]\<rparr>,
          pool_queue = [\<lparr>tx_hash = 10, tx_priority = 1, tx_weights = [(0, 10)]\<rparr>]\<rparr>)
     = Some ErrCallAlreadyExists
 \<and> fst (QueueTx pool_Add \<lparr>tx_hash = 10, tx_priority = 1, tx_weights = [(0, 10)]\<rparr>
         \<lparr>txPool = \<lparr>pool_cfg = \<lparr>MaxPoolSize = 2, WeightLimits = [(0, 1000)]\<rparr>,
                     pool_queue = [\<lparr>tx_hash = 10, tx_priority = 1, tx_weights = [(0, 10)]\<rparr>]\<rparr>,
          maxTxPoolSize = 2, logger = []\<rparr>) = None
 \<and> UnscheduledSize pool_Size (snd (QueueTx pool_Add
         \<lparr>tx_hash = 10, tx_priority = 1, tx_weights = [(0, 10)]\<rparr>
         \<lparr>txPool = \<lparr>pool_cfg = \<lparr>MaxPoolSize = 2, WeightLimits = [(0, 1000)]\<rparr>,
                     pool_queue = [\<lparr>tx_hash = 10, tx_priority = 1, tx_weights = [(0, 10)]\<rparr>]\<rparr>,
          maxTxPoolSize = 2, logger = []\<rparr>)) = 1
 \<and> fst (pool_Add \<lparr>tx_hash = 12, tx_priority = 1, tx_weights = [(0, 10)]\<rparr>
         \<lparr>pool_cfg = \<lparr>MaxPoolSize = 1, WeightLimits = [(0, 1000)]\<rparr>,
          pool_queue = [\<lparr>tx_hash = 10, tx_priority = 1, tx_weights = [(0, 10)]\<rparr>]\<rparr>)
     = Some (ErrOther ''pool is full'')
 \<and> ErrOther ''pool is full'' \<noteq> ErrCallAlreadyExists
 \<and> fst (QueueTx pool_Add \<lparr>tx_hash = 12, tx_priority = 1, tx_weights = [(0, 10)]\<rparr>
         \<lparr>txPool = \<lparr>pool_cfg = \<lparr>MaxPoolSize = 1, WeightLimits = [(0, 1000)]\<rparr>,
                     pool_queue = [\<lparr>tx_hash = 10, tx_priority = 1, tx_weights = [(0, 10)]\<rparr>]\<rparr>,
          maxTxPoolSize = 1, logger = []\<rparr>) = Some (ErrOther ''pool is full'')"
  using C6_duplicate_is_success
      [where ctx = "\<lparr>tx_hash = 10, tx_priority = 1, tx_weights = [(0, 10)]\<rparr>"
         and ps = "\<lparr>txPool = \<lparr>pool_cfg = \<lparr>MaxPoolSize = 2, WeightLimits = [(0, 1000)]\<rparr>,
                     pool_queue = [\<lparr>tx_hash = 10, tx_priority = 1, tx_weights = [(0, 10)]\<rparr>]\<rparr>,
                   maxTxPoolSize = 2, logger = []\<rparr>"
         and Add = pool_Add
         and tx = "\<lparr>tx_hash = 12, tx_priority = 1, tx_weights = [(0, 10)]\<rparr>"
         and s = "\<lparr>txPool = \<lparr>pool_cfg = \<lparr>MaxPoolSize = 1, WeightLimits = [(0, 1000)]\<rparr>,
                     pool_queue = [\<lparr>tx_hash = 10, tx_priority = 1, tx_weights = [(0, 10)]\<rparr>]\<rparr>,
                   maxTxPoolSize = 1, logger = []\<rparr>"
         and e = "ErrOther ''pool is full''"]
  by (simp add: pool_Add_def UnscheduledSize_def pool_Size_def)

text \<open>
  C2 (as amended).  For a block whose header type is none of the four named ones the
  handler ends with an error log and performs no transition and no pool update, and
  calls no epoch-transition and no new-block callback.  It is not without effect.  When
  the light block cannot be fetched the protected state is as it was.  When it is
  fetched, \<open>CurrentBlock\<close>, \<open>CurrentBlockHeight\<close> and \<open>CurrentConsensusBlock\<close> are
  set to the new block, so that the protected state is unchanged exactly when it held
  these three values already.  When the handler reaches the switch its effects are the
  block counter, the early notification of every hook and the log of the invalid block
  type, in this order.  Descriptor and epoch are unchanged when \<open>CurrentBlock\<close> was
  set before the call; when it was nil and the handler reaches the switch they are
  refreshed as for any first block.
\<close>

theorem C2_unknown_header_type:
  assumes "HeaderType (Header blk) = UnknownType v"
  shows "filter is_transition (effects_since n (handleNewBlockLocked rs blk height n)) = []
     \<and> filter is_pool_update (effects_since n (handleNewBlockLocked rs blk height n)) = []
     \<and> filter is_hook_callback (effects_since n (handleNewBlockLocked rs blk height n))
         = (if reaches_dispatch rs blk n
            then map (\<lambda>h. Hook_HandleNewBlockEarlyLocked h blk) (hooks n) else [])
     \<and> (\<exists>msg. effects_since n (handleNewBlockLocked rs blk height n) \<noteq> []
           \<and> last (effects_since n (handleNewBlockLocked rs blk height n)) = Log Error msg)
     \<and> (reaches_dispatch rs blk n \<longrightarrow>
          effects_since n (handleNewBlockLocked rs blk height n) =
            [MetricInc ProcessedBlockCount]
            @ map (\<lambda>h. Hook_HandleNewBlockEarlyLocked h blk) (hooks n)
            @ [Log Error ''invalid block type''])
     \<and> (isl (GetLightBlock_r rs) \<longrightarrow>
          protected (handleNewBlockLocked rs blk height n) = protected n)
     \<and> (GetLightBlock_r rs = Inr lb \<longrightarrow>
          CurrentBlock (handleNewBlockLocked rs blk height n) = Some blk
        \<and> CurrentBlockHeight (handleNewBlockLocked rs blk height n) = height
        \<and> CurrentConsensusBlock (handleNewBlockLocked rs blk height n) = Some lb
        \<and> (protected (handleNewBlockLocked rs blk height n) = protected n
             \<longleftrightarrow> CurrentBlock n = Some blk \<and> CurrentBlockHeight n = height
                 \<and> CurrentConsensusBlock n = Some lb))
     \<and> (CurrentBlock n \<noteq> None \<longrightarrow>
          CurrentDescriptor (handleNewBlockLocked rs blk height n) = CurrentDescriptor n
        \<and> CurrentEpoch (handleNewBlockLocked rs blk height n) = CurrentEpoch n)
     \<and> (CurrentBlock n = None \<and> reaches_dispatch rs blk n \<longrightarrow>
          CurrentDescriptor (handleNewBlockLocked rs blk height n)
            = (case snd (GetRuntime_r rs) of
                 None \<Rightarrow> fst (GetRuntime_r rs) | Some e \<Rightarrow> CurrentDescriptor n)
        \<and> CurrentEpoch (handleNewBlockLocked rs blk height n) = fst (GetEpoch_r rs))"
proof -
  have a: "isl (GetLightBlock_r rs) \<longrightarrow>
          protected (handleNewBlockLocked rs blk height n) = protected n"
    by (cases "GetLightBlock_r rs") (simp_all add: handle_fetch_failed protected_def)
  have b: "CurrentBlock n \<noteq> None \<longrightarrow>
          CurrentDescriptor (handleNewBlockLocked rs blk height n) = CurrentDescriptor n
        \<and> CurrentEpoch (handleNewBlockLocked rs blk height n) = CurrentEpoch n"
    using assms handle_no_refresh [of n blk rs height] by simp
  have c: "GetLightBlock_r rs = Inr lb \<longrightarrow>
          CurrentBlock (handleNewBlockLocked rs blk height n) = Some blk
        \<and> CurrentBlockHeight (handleNewBlockLocked rs blk height n) = height
        \<and> CurrentConsensusBlock (handleNewBlockLocked rs blk height n) = Some lb"
    using handle_committed [of rs lb blk height n] by simp
  have d: "GetLightBlock_r rs = Inr lb \<longrightarrow>
        (protected (handleNewBlockLocked rs blk height n) = protected n
             \<longleftrightarrow> CurrentBlock n = Some blk \<and> CurrentBlockHeight n = height
                 \<and> CurrentConsensusBlock n = Some lb)"
    using b c by (auto simp add: protected_def)
  have e: "CurrentBlock n = None \<and> reaches_dispatch rs blk n \<longrightarrow>
          CurrentDescriptor (handleNewBlockLocked rs blk height n)
            = (case snd (GetRuntime_r rs) of
                 None \<Rightarrow> fst (GetRuntime_r rs) | Some e \<Rightarrow> CurrentDescriptor n)
        \<and> CurrentEpoch (handleNewBlockLocked rs blk height n) = fst (GetEpoch_r rs)"
    using handle_refreshed [of rs blk n height] by simp
  have f: "reaches_dispatch rs blk n \<longrightarrow>
          effects_since n (handleNewBlockLocked rs blk height n) =
            [MetricInc ProcessedBlockCount]
            @ map (\<lambda>h. Hook_HandleNewBlockEarlyLocked h blk) (hooks n)
            @ [Log Error ''invalid block type'']"
    using handle_unknown_trace [of rs blk n v height] assms by simp
  have g: "filter is_transition (effects_since n (handleNewBlockLocked rs blk height n)) = []
     \<and> filter is_pool_update (effects_since n (handleNewBlockLocked rs blk height n)) = []
     \<and> filter is_hook_callback (effects_since n (handleNewBlockLocked rs blk height n))
         = (if reaches_dispatch rs blk n
            then map (\<lambda>h. Hook_HandleNewBlockEarlyLocked h blk) (hooks n) else [])"
    using assms by (simp add: handle_transitions handle_pool_updates handle_hook_callbacks)
  from a b c d e f g handle_ends_with_log [OF assms, of n rs height]
  show ?thesis by blast
qed

theorem C2_unknown_header_type_witness:
  "HeaderType (Header (block_of (UnknownType 0) 2)) = UnknownType 0
   \<and> GetLightBlock_r (ok_responses 8 3) = Inr \<lparr>lb_Height = 8\<rparr>
   \<and> CurrentBlock running_node \<noteq> None
   \<and> reaches_dispatch (ok_responses 8 3) (block_of (UnknownType 0) 2) running_node
   \<and> filter is_transition (effects_since running_node
        (handleNewBlockLocked (ok_responses 8 3) (block_of (UnknownType 0) 2) 8 running_node)) = []
   \<and> filter is_pool_update (effects_since running_node
        (handleNewBlockLocked (ok_responses 8 3) (block_of (UnknownType 0) 2) 8 running_node)) = []
   \<and> effects_since running_node
        (handleNewBlockLocked (ok_responses 8 3) (block_of (UnknownType 0) 2) 8 running_node)
       = [MetricInc ProcessedBlockCount,
          Hook_HandleNewBlockEarlyLocked 0 (block_of (UnknownType 0) 2),
          Log Error ''invalid block type'']
   \<and> CurrentBlock (handleNewBlockLocked (ok_responses 8 3) (block_of (UnknownType 0) 2) 8 running_node)
       = Some (block_of (UnknownType 0) 2)
   \<and> CurrentBlockHeight
        (handleNewBlockLocked (ok_responses 8 3) (block_of (UnknownType 0) 2) 8 running_node) = 8
   \<and> CurrentDescriptor
        (handleNewBlockLocked (ok_responses 8 3) (block_of (UnknownType 0) 2) 8 running_node)
       = CurrentDescriptor running_node
   \<and> isl (GetLightBlock_r ((ok_responses 8 3)\<lparr>GetLightBlock_r := Inl (ErrOther ''unavailable'')\<rparr>))
   \<and> protected (handleNewBlockLocked
        ((ok_responses 8 3)\<lparr>GetLightBlock_r := Inl (ErrOther ''unavailable'')\<rparr>)
        (block_of (UnknownType 0) 2) 8 running_node) = protected running_node
   \<and> CurrentBlock started_node = None
   \<and> reaches_dispatch (ok_responses 7 2) (block_of (UnknownType 0) 1) started_node
   \<and> CurrentEpoch (handleNewBlockLocked (ok_responses 7 2) (block_of (UnknownType 0) 1) 7
        started_node) = 2"
  using C2_unknown_header_type
          [of "block_of (UnknownType 0) 2" 0 running_node "ok_responses 8 3" 8 "\<lparr>lb_Height = 8\<rparr>"]
        C2_unknown_header_type
          [of "block_of (UnknownType 0) 2" 0 running_node
              "(ok_responses 8 3)\<lparr>GetLightBlock_r := Inl (ErrOther ''unavailable'')\<rparr>" 8
              "\<lparr>lb_Height = 8\<rparr>"]
        C2_unknown_header_type
          [of "block_of (UnknownType 0) 1" 0 started_node "ok_responses 7 2" 7 "\<lparr>lb_Height = 7\<rparr>"]
  by (simp add: example_defs started_node_def)

theorem C2_unknown_header_type_counterexample:
  "HeaderType (Header (block_of (UnknownType 0) 2)) = UnknownType 0
   \<and> protected (handleNewBlockLocked (ok_responses 8 3) (block_of (UnknownType 0) 2) 8 running_node)
       \<noteq> protected running_node
   \<and> CurrentBlock (handleNewBlockLocked (ok_responses 8 3) (block_of (UnknownType 0) 2) 8 running_node)
       = Some (block_of (UnknownType 0) 2)
   \<and> Hook_HandleNewBlockEarlyLocked 0 (block_of (UnknownType 0) 2)
       \<in> set (effects_since running_node
            (handleNewBlockLocked (ok_responses 8 3) (block_of (UnknownType 0) 2) 8 running_node))"
  by (simp add: eval_defs protected_def)

text \<open>
  C9 (as amended).  Whether a block counts as the first one is decided by
  \<open>CurrentBlock\<close> being nil, not by the number of blocks received.  For a block handled
  while \<open>CurrentBlock\<close> is set and whose header type is not EpochTransition the
  handler leaves \<open>CurrentDescriptor\<close> and \<open>CurrentEpoch\<close> unchanged.  A failed fetch of
  the light block leaves \<open>CurrentBlock\<close> as it was and a successful one sets it, so a
  block that arrives after earlier blocks whose fetches all failed is handled as a first
  block: when the handler reaches the switch, on such a block as on an EpochTransition
  block, the descriptor is the one looked up (or the previous one, on "no such runtime")
  and the epoch is the one looked up.
\<close>

theorem C9_refresh_decided_by_current_block:
  "(CurrentBlock n \<noteq> None \<and> HeaderType (Header blk) \<noteq> EpochTransition \<longrightarrow>
      CurrentDescriptor (handleNewBlockLocked rs blk height n) = CurrentDescriptor n
    \<and> CurrentEpoch (handleNewBlockLocked rs blk height n) = CurrentEpoch n)
 \<and> (isl (GetLightBlock_r rs) \<longrightarrow>
      CurrentBlock (handleNewBlockLocked rs blk height n) = CurrentBlock n)
 \<and> (\<not> isl (GetLightBlock_r rs) \<longrightarrow>
      CurrentBlock (handleNewBlockLocked rs blk height n) = Some blk)
 \<and> ((CurrentBlock n = None \<or> HeaderType (Header blk) = EpochTransition)
      \<and> reaches_dispatch rs blk n \<longrightarrow>
      CurrentDescriptor (handleNewBlockLocked rs blk height n)
        = (case snd (GetRuntime_r rs) of
             None \<Rightarrow> fst (GetRuntime_r rs) | Some e \<Rightarrow> CurrentDescriptor n)
    \<and> CurrentEpoch (handleNewBlockLocked rs blk height n) = fst (GetEpoch_r rs))"
  using handle_no_refresh [of n blk rs height] handle_current_block [of rs blk height n]
        handle_refreshed [of rs blk n height]
  by simp

theorem C9_refresh_decided_by_current_block_witness:
  "CurrentBlock running_node \<noteq> None
   \<and> HeaderType (Header (block_of Normal 2)) \<noteq> EpochTransition
   \<and> CurrentDescriptor (handleNewBlockLocked (ok_responses 8 3) (block_of Normal 2) 8 running_node)
       = CurrentDescriptor running_node
   \<and> CurrentEpoch (handleNewBlockLocked (ok_responses 8 3) (block_of Normal 2) 8 running_node)
       = CurrentEpoch running_node
   \<and> \<not> isl (GetLightBlock_r (ok_responses 8 3))
   \<and> CurrentBlock (handleNewBlockLocked (ok_responses 8 3) (block_of Normal 2) 8 running_node)
       = Some (block_of Normal 2)
   \<and> isl (GetLightBlock_r ((ok_responses 7 2)\<lparr>GetLightBlock_r := Inl (ErrOther ''unavailable'')\<rparr>))
   \<and> CurrentBlock (handleNewBlockLocked
        ((ok_responses 7 2)\<lparr>GetLightBlock_r := Inl (ErrOther ''unavailable'')\<rparr>)
        (block_of Normal 1) 7 started_node) = None
   \<and> CurrentBlock started_node = None
   \<and> reaches_dispatch (ok_responses 8 5) (block_of Normal 2) started_node
   \<and> CurrentEpoch (handleNewBlockLocked (ok_responses 8 5) (block_of Normal 2) 8 started_node) = 5"
  using C9_refresh_decided_by_current_block
          [of running_node "block_of Normal 2" "ok_responses 8 3" 8]
        C9_refresh_decided_by_current_block
          [of started_node "block_of Normal 1"
              "(ok_responses 7 2)\<lparr>GetLightBlock_r := Inl (ErrOther ''unavailable'')\<rparr>" 7]
        C9_refresh_decided_by_current_block
          [of started_node "block_of Normal 2" "ok_responses 8 5" 8]
  by (simp add: example_defs started_node_def)

theorem C9_second_block_after_failed_fetch_counterexample:
  "HeaderType (Header (block_of Normal 2)) \<noteq> EpochTransition
   \<and> CurrentBlock (handleNewBlockLocked
        ((ok_responses 7 2)\<lparr>GetLightBlock_r := Inl (ErrOther ''unavailable'')\<rparr>)
        (block_of Normal 1) 7 started_node) = None
   \<and> CurrentDescriptor
        (handleNewBlockLocked
           ((ok_responses 8 5)\<lparr>GetRuntime_r := (Some \<lparr>ID = 1, KeyManager = Some 3\<rparr>, None)\<rparr>)
           (block_of Normal 2) 8
           (handleNewBlockLocked
              ((ok_responses 7 2)\<lparr>GetLightBlock_r := Inl (ErrOther ''unavailable'')\<rparr>)
              (block_of Normal 1) 7 started_node))
       \<noteq> CurrentDescriptor
            (handleNewBlockLocked
               ((ok_responses 7 2)\<lparr>GetLightBlock_r := Inl (ErrOther ''unavailable'')\<rparr>)
               (block_of Normal 1) 7 started_node)
   \<and> CurrentEpoch
        (handleNewBlockLocked
           ((ok_responses 8 5)\<lparr>GetRuntime_r := (Some \<lparr>ID = 1, KeyManager = Some 3\<rparr>, None)\<rparr>)
           (block_of Normal 2) 8
           (handleNewBlockLocked
              ((ok_responses 7 2)\<lparr>GetLightBlock_r := Inl (ErrOther ''unavailable'')\<rparr>)
              (block_of Normal 1) 7 started_node))
       \<noteq> CurrentEpoch
            (handleNewBlockLocked
               ((ok_responses 7 2)\<lparr>GetLightBlock_r := Inl (ErrOther ''unavailable'')\<rparr>)
               (block_of Normal 1) 7 started_node)"
  by (simp add: eval_defs started_node_def)

text \<open>
  C10 (as amended).  The startup assigns the runtime's active descriptor to
  \<open>CurrentDescriptor\<close> before the main loop is entered.  The handler either keeps
  \<open>CurrentDescriptor\<close> or, on a first block or an EpochTransition block whose lookup
  reports no error, assigns the pointer that the lookup returned, without a check for
  nil.  So \<open>CurrentDescriptor\<close> stays set, whatever the schedule, as long as every
  lookup that reports no error returns a descriptor; a lookup that returns nil and no
  error resets it to nil.
\<close>

theorem C10_descriptor_stays_set:
  "(select_sync su = Sync_Synced \<and> ActiveDescriptor_r su = Some (Inr rt)
      \<and> list_all (responses_satisfy descriptor_returned) evs \<longrightarrow>
      CurrentDescriptor (snd (worker su evs n)) \<noteq> None)
 \<and> (worker_startup su n = Inr (defers, m) \<longrightarrow>
      (\<exists>rt. ActiveDescriptor_r su = Some (Inr rt) \<and> CurrentDescriptor m = Some rt))
 \<and> (CurrentDescriptor n \<noteq> None \<and> descriptor_returned rs \<longrightarrow>
      CurrentDescriptor (handleNewBlockLocked rs blk height n) \<noteq> None)
 \<and> (CurrentDescriptor (handleNewBlockLocked rs blk height n) = CurrentDescriptor n
      \<or> (snd (GetRuntime_r rs) = None
          \<and> (CurrentBlock n = None \<or> HeaderType (Header blk) = EpochTransition)
          \<and> CurrentDescriptor (handleNewBlockLocked rs blk height n) = fst (GetRuntime_r rs)))
 \<and> (\<not> isl (GetLightBlock_r rs)
      \<and> (CurrentBlock n = None \<or> HeaderType (Header blk) = EpochTransition)
      \<and> GetRuntime_r rs = (None, None) \<longrightarrow>
      CurrentDescriptor (handleNewBlockLocked rs blk height n) = None)"
proof (intro conjI impI)
  assume "select_sync su = Sync_Synced \<and> ActiveDescriptor_r su = Some (Inr rt)
      \<and> list_all (responses_satisfy descriptor_returned) evs"
  then show "CurrentDescriptor (snd (worker su evs n)) \<noteq> None"
    using worker_descriptor [of su rt evs n] by simp
next
  assume "worker_startup su n = Inr (defers, m)"
  from worker_startup_Inr [OF this]
  show "\<exists>rt. ActiveDescriptor_r su = Some (Inr rt) \<and> CurrentDescriptor m = Some rt"
    by auto
next
  assume "CurrentDescriptor n \<noteq> None \<and> descriptor_returned rs"
  then show "CurrentDescriptor (handleNewBlockLocked rs blk height n) \<noteq> None"
    using handle_descriptor [of rs blk height n] by (auto simp add: descriptor_returned_def)
next
  show "CurrentDescriptor (handleNewBlockLocked rs blk height n) = CurrentDescriptor n
      \<or> (snd (GetRuntime_r rs) = None
          \<and> (CurrentBlock n = None \<or> HeaderType (Header blk) = EpochTransition)
          \<and> CurrentDescriptor (handleNewBlockLocked rs blk height n) = fst (GetRuntime_r rs))"
    by (rule handle_descriptor)
next
  assume "\<not> isl (GetLightBlock_r rs)
      \<and> (CurrentBlock n = None \<or> HeaderType (Header blk) = EpochTransition)
      \<and> GetRuntime_r rs = (None, None)"
  then show "CurrentDescriptor (handleNewBlockLocked rs blk height n) = None"
    using handle_descriptor_reset [of rs n blk height] by simp
qed

theorem C10_descriptor_stays_set_witness:
  "select_sync ok_startup = Sync_Synced
 \<and> ActiveDescriptor_r ok_startup = Some (Inr \<lparr>ID = 1, KeyManager = None\<rparr>)
 \<and> list_all (responses_satisfy descriptor_returned)
      [Sel_blocks (block_of Normal 1) 7 [Child_Initialized]
         ((ok_responses 7 2)\<lparr>GetRuntime_r := (None, Some ErrNoSuchRuntime)\<rparr>),
       Sel_blocks (block_of EpochTransition 2) 8 [] (ok_responses 8 3)]
 \<and> CurrentDescriptor (snd (worker ok_startup
        [Sel_blocks (block_of Normal 1) 7 [Child_Initialized]
           ((ok_responses 7 2)\<lparr>GetRuntime_r := (None, Some ErrNoSuchRuntime)\<rparr>),
         Sel_blocks (block_of EpochTransition 2) 8 [] (ok_responses 8 3)]
        (AddHooks 0 NewNode))) \<noteq> None
 \<and> CurrentDescriptor running_node \<noteq> None
 \<and> descriptor_returned (ok_responses 9 3)
 \<and> CurrentDescriptor (handleNewBlockLocked (ok_responses 9 3) (block_of EpochTransition 3) 9
        running_node) \<noteq> None
 \<and> \<not> isl (GetLightBlock_r ((ok_responses 9 3)\<lparr>GetRuntime_r := (None, None)\<rparr>))
 \<and> CurrentDescriptor (handleNewBlockLocked ((ok_responses 9 3)\<lparr>GetRuntime_r := (None, None)\<rparr>)
        (block_of EpochTransition 3) 9 running_node) = None"
  using C10_descriptor_stays_set
          [where su = ok_startup and rt = "\<lparr>ID = 1, KeyManager = None\<rparr>"
             and evs = "[Sel_blocks (block_of Normal 1) 7 [Child_Initialized]
                 ((ok_responses 7 2)\<lparr>GetRuntime_r := (None, Some ErrNoSuchRuntime)\<rparr>),
               Sel_blocks (block_of EpochTransition 2) 8 [] (ok_responses 8 3)]"
             and n = "AddHooks 0 NewNode"]
        C10_descriptor_stays_set
          [where n = running_node and rs = "ok_responses 9 3"
             and blk = "block_of EpochTransition 3" and height = 9]
        C10_descriptor_stays_set
          [where n = running_node and rs = "(ok_responses 9 3)\<lparr>GetRuntime_r := (None, None)\<rparr>"
             and blk = "block_of EpochTransition 3" and height = 9]
  by (simp add: ok_startup_def running_node_def AddHooks_def NewNode_def ok_responses_def
        descriptor_returned_def block_of_def)

theorem C10_descriptor_reset_counterexample:
  "select_sync ok_startup = Sync_Synced
 \<and> ActiveDescriptor_r ok_startup = Some (Inr \<lparr>ID = 1, KeyManager = None\<rparr>)
 \<and> fst (worker ok_startup
        [Sel_blocks (block_of Normal 1) 7 [] ((ok_responses 7 2)\<lparr>GetRuntime_r := (None, None)\<rparr>)]
        NewNode) = Waiting
 \<and> CurrentBlock (snd (worker ok_startup
        [Sel_blocks (block_of Normal 1) 7 [] ((ok_responses 7 2)\<lparr>GetRuntime_r := (None, None)\<rparr>)]
        NewNode)) = Some (block_of Normal 1)
 \<and> CurrentDescriptor (snd (worker ok_startup
        [Sel_blocks (block_of Normal 1) 7 [] ((ok_responses 7 2)\<lparr>GetRuntime_r := (None, None)\<rparr>)]
        NewNode)) = None"
  by (simp add: worker_eval_defs handleNewBlockLocked_def updateActiveDescriptor_def
        dispatchHeaderType_def handleEpochTransitionLocked_def)

text \<open>
  C3 (as amended).  The worker closes \<open>initCh\<close> at most once, and not before a
  runtime block is received.  When the loop, not yet initialized, receives a runtime
  block it closes \<open>initCh\<close> exactly once and at once, before it waits for any hook;
  it then waits for the hooks in turn.  When all hooks have reported, the block is
  handled right after the last report.  When the stop signal preempts the wait, the
  worker logs the request, runs its deferred calls and returns without handling the
  block; when a hook has not reported and the stop signal has not fired, the worker
  is still waiting and the block is not handled; in both cases the protected state is
  as it was and \<open>initCh\<close> is closed all the same.  Once initialized the loop never
  closes \<open>initCh\<close> again.  The stop signal preempts the wait when it is chosen at
  a hook before which all hooks have reported.
\<close>

theorem C3_initialization_signal:
  "count_list (effects_since n (snd (worker su evs n))) Close_initCh \<le> 1
 \<and> (list_all (\<lambda>e. \<not> is_Sel_blocks e) evs \<longrightarrow>
      Close_initCh \<notin> set (effects_since n (snd (worker su evs n))))
 \<and> initCh (snd (worker_loop defers False (Sel_blocks blk height sels rs # evs') m))
 \<and> (\<exists>rest. trace (snd (worker_loop defers False (Sel_blocks blk height sels rs # evs') m))
            = trace m @ [Log Debug ''common worker is initialized'', Close_initCh,
                         Log Debug ''waiting for child worker initialization''] @ rest
        \<and> (fst (waitChildWorkers (hooks m) sels m) = AllInitialized \<longrightarrow>
             (\<exists>rest'. rest = map Hook_Initialized (hooks m)
                          @ [Log Debug ''all child workers are initialized'',
                             MetricInc ProcessedBlockCount] @ rest'))
        \<and> (fst (waitChildWorkers (hooks m) sels m) \<noteq> AllInitialized
             \<and> MetricInc ProcessedBlockCount \<notin> set defers \<longrightarrow>
             MetricInc ProcessedBlockCount \<notin> set rest))
 \<and> (Close_initCh \<notin> set defers \<longrightarrow>
      count_list (effects_since m
         (snd (worker_loop defers False (Sel_blocks blk height sels rs # evs') m)))
        Close_initCh = 1)
 \<and> (Close_initCh \<notin> set defers \<longrightarrow>
      Close_initCh \<notin> set (effects_since m (snd (worker_loop defers True evs' m))))
 \<and> (fst (waitChildWorkers (hooks m) sels m) = StopRequested \<longrightarrow>
      fst (worker_loop defers False (Sel_blocks blk height sels rs # evs') m) = Returned
    \<and> protected (snd (worker_loop defers False (Sel_blocks blk height sels rs # evs') m))
        = protected m
    \<and> (\<exists>ws. set ws \<subseteq> range Hook_Initialized
          \<and> trace (snd (worker_loop defers False (Sel_blocks blk height sels rs # evs') m))
             = trace m @ [Log Debug ''common worker is initialized'', Close_initCh,
                          Log Debug ''waiting for child worker initialization'']
               @ ws
               @ [Log Info
                    ''termination requested while waiting for child worker initialization'']
               @ defers))
 \<and> (fst (waitChildWorkers (hooks m) sels m) = StillWaiting \<longrightarrow>
      fst (worker_loop defers False (Sel_blocks blk height sels rs # evs') m) = Waiting
    \<and> protected (snd (worker_loop defers False (Sel_blocks blk height sels rs # evs') m))
        = protected m
    \<and> (\<exists>ws. set ws \<subseteq> range Hook_Initialized
          \<and> trace (snd (worker_loop defers False (Sel_blocks blk height sels rs # evs') m))
             = trace m @ [Log Debug ''common worker is initialized'', Close_initCh,
                          Log Debug ''waiting for child worker initialization'']
               @ ws))
 \<and> (k < length (hooks m) \<longrightarrow>
      fst (waitChildWorkers (hooks m) (replicate k Child_Initialized @ Child_stopCh # sels') m)
        = StopRequested)
 \<and> (length (hooks m) \<le> k \<longrightarrow>
      fst (waitChildWorkers (hooks m) (replicate k Child_Initialized @ sels') m)
        = AllInitialized)"
proof -
  from worker_trace [of su evs n] obtain es where
    "trace (snd (worker su evs n)) = trace n @ es"
    "count_list es Close_initCh \<le> 1"
    "list_all (\<lambda>e. \<not> is_Sel_blocks e) evs \<longrightarrow> Close_initCh \<notin> set es"
    by blast
  then have a: "count_list (effects_since n (snd (worker su evs n))) Close_initCh \<le> 1
     \<and> (list_all (\<lambda>e. \<not> is_Sel_blocks e) evs \<longrightarrow>
          Close_initCh \<notin> set (effects_since n (snd (worker su evs n))))"
    by (simp add: effects_since_def)
  from worker_loop_trace [of defers True evs' m] obtain es' where
    "trace (snd (worker_loop defers True evs' m)) =
          trace m @ es' @ (if fst (worker_loop defers True evs' m) = Returned then defers else [])"
    "count_list es' Close_initCh \<le> 0"
    by auto
  then have b: "Close_initCh \<notin> set defers \<longrightarrow>
      Close_initCh \<notin> set (effects_since m (snd (worker_loop defers True evs' m)))"
    by (simp add: effects_since_def count_list_0_iff)
  have c: "Close_initCh \<notin> set defers \<longrightarrow>
      count_list (effects_since m
         (snd (worker_loop defers False (Sel_blocks blk height sels rs # evs') m)))
        Close_initCh = 1"
    using first_block_closes_once [of defers m blk height sels rs evs'] by blast
  have d: "fst (waitChildWorkers (hooks m) sels m) = StopRequested \<longrightarrow>
      fst (worker_loop defers False (Sel_blocks blk height sels rs # evs') m) = Returned
    \<and> protected (snd (worker_loop defers False (Sel_blocks blk height sels rs # evs') m))
        = protected m
    \<and> (\<exists>ws. set ws \<subseteq> range Hook_Initialized
          \<and> trace (snd (worker_loop defers False (Sel_blocks blk height sels rs # evs') m))
             = trace m @ [Log Debug ''common worker is initialized'', Close_initCh,
                          Log Debug ''waiting for child worker initialization'']
               @ ws
               @ [Log Info
                    ''termination requested while waiting for child worker initialization'']
               @ defers)"
    using first_block_not_handled [of m sels defers blk height rs evs']
    by (auto simp del: worker_loop.simps)
  have e: "fst (waitChildWorkers (hooks m) sels m) = StillWaiting \<longrightarrow>
      fst (worker_loop defers False (Sel_blocks blk height sels rs # evs') m) = Waiting
    \<and> protected (snd (worker_loop defers False (Sel_blocks blk height sels rs # evs') m))
        = protected m
    \<and> (\<exists>ws. set ws \<subseteq> range Hook_Initialized
          \<and> trace (snd (worker_loop defers False (Sel_blocks blk height sels rs # evs') m))
             = trace m @ [Log Debug ''common worker is initialized'', Close_initCh,
                          Log Debug ''waiting for child worker initialization'']
               @ ws)"
    using first_block_not_handled [of m sels defers blk height rs evs']
    by (auto simp del: worker_loop.simps)
  have f: "k < length (hooks m) \<longrightarrow>
      fst (waitChildWorkers (hooks m) (replicate k Child_Initialized @ Child_stopCh # sels') m)
        = StopRequested"
    by (simp add: waitChildWorkers_stop_at)
  have g: "length (hooks m) \<le> k \<longrightarrow>
      fst (waitChildWorkers (hooks m) (replicate k Child_Initialized @ sels') m)
        = AllInitialized"
    by (simp add: waitChildWorkers_all)
  from a b c d e f g first_block_effects [of defers blk height sels rs evs' m]
  show ?thesis by blast
qed

theorem C3_initialization_signal_witness:
  "list_all (\<lambda>e. \<not> is_Sel_blocks e) [Sel_consensusBlocks (Some 5), Sel_events 1]
 \<and> Close_initCh \<notin> set (effects_since (AddHooks 0 NewNode)
        (snd (worker ok_startup [Sel_consensusBlocks (Some 5), Sel_events 1] (AddHooks 0 NewNode))))
 \<and> fst (waitChildWorkers (hooks (AddHooks 0 NewNode)) [Child_Initialized] (AddHooks 0 NewNode))
      = AllInitialized
 \<and> Close_initCh \<notin> set [CancelCtx, Close_quitCh]
 \<and> initCh (snd (worker_loop [CancelCtx, Close_quitCh] False
        [Sel_blocks (block_of Normal 1) 7 [Child_Initialized] (ok_responses 7 2)]
        (AddHooks 0 NewNode)))
 \<and> count_list (effects_since (AddHooks 0 NewNode)
        (snd (worker_loop [CancelCtx, Close_quitCh] False
           [Sel_blocks (block_of Normal 1) 7 [Child_Initialized] (ok_responses 7 2)]
           (AddHooks 0 NewNode)))) Close_initCh = 1
 \<and> Close_initCh \<notin> set (effects_since (AddHooks 0 NewNode)
        (snd (worker_loop [CancelCtx, Close_quitCh] True [] (AddHooks 0 NewNode))))
 \<and> fst (waitChildWorkers (hooks (AddHooks 0 NewNode)) [Child_stopCh] (AddHooks 0 NewNode))
      = StopRequested
 \<and> fst (worker_loop [CancelCtx, Close_quitCh] False
        [Sel_blocks (block_of Normal 1) 7 [Child_stopCh] (ok_responses 7 2)]
        (AddHooks 0 NewNode)) = Returned
 \<and> protected (snd (worker_loop [CancelCtx, Close_quitCh] False
        [Sel_blocks (block_of Normal 1) 7 [Child_stopCh] (ok_responses 7 2)]
        (AddHooks 0 NewNode))) = protected (AddHooks 0 NewNode)
 \<and> fst (waitChildWorkers (hooks (AddHooks 0 NewNode)) [] (AddHooks 0 NewNode)) = StillWaiting
 \<and> fst (worker_loop [CancelCtx, Close_quitCh] False
        [Sel_blocks (block_of Normal 1) 7 [] (ok_responses 7 2)]
        (AddHooks 0 NewNode)) = Waiting"
proof -
  have h: "hooks (AddHooks 0 NewNode) = [0]" by (simp add: AddHooks_def NewNode_def)
  have w: "fst (waitChildWorkers [0] [Child_Initialized] (AddHooks 0 NewNode)) = AllInitialized"
      "fst (waitChildWorkers [0] [Child_stopCh] (AddHooks 0 NewNode)) = StopRequested"
      "fst (waitChildWorkers [0] [] (AddHooks 0 NewNode)) = StillWaiting"
    by simp_all
  show ?thesis
    using C3_initialization_signal
          [of "AddHooks 0 NewNode" ok_startup "[Sel_consensusBlocks (Some 5), Sel_events 1]"
              "[CancelCtx, Close_quitCh]" "block_of Normal 1" 7 "[Child_Initialized]"
              "ok_responses 7 2" "[]" "AddHooks 0 NewNode" 0 "[]"]
        C3_initialization_signal
          [of "AddHooks 0 NewNode" ok_startup "[]"
              "[CancelCtx, Close_quitCh]" "block_of Normal 1" 7 "[Child_stopCh]"
              "ok_responses 7 2" "[]" "AddHooks 0 NewNode" 0 "[]"]
        C3_initialization_signal
          [of "AddHooks 0 NewNode" ok_startup "[]"
              "[CancelCtx, Close_quitCh]" "block_of Normal 1" 7 "[]"
              "ok_responses 7 2" "[]" "AddHooks 0 NewNode" 0 "[]"]
    by (simp add: h w del: worker_loop.simps)
qed

theorem C3_initialization_signal_counterexample:
  "fst (worker ok_startup [Sel_blocks (block_of Normal 1) 7 [] (ok_responses 7 2)]
          (AddHooks 0 NewNode)) = Waiting
 \<and> initCh (snd (worker ok_startup [Sel_blocks (block_of Normal 1) 7 [] (ok_responses 7 2)]
          (AddHooks 0 NewNode)))
 \<and> Close_initCh \<in> set (trace (snd (worker ok_startup
          [Sel_blocks (block_of Normal 1) 7 [] (ok_responses 7 2)] (AddHooks 0 NewNode))))
 \<and> Hook_Initialized 0 \<notin> set (trace (snd (worker ok_startup
          [Sel_blocks (block_of Normal 1) 7 [] (ok_responses 7 2)] (AddHooks 0 NewNode))))
 \<and> \<not> stopCh (snd (worker ok_startup [Sel_blocks (block_of Normal 1) 7 [] (ok_responses 7 2)]
          (AddHooks 0 NewNode)))"
  by (simp add: worker_eval_defs)

end
